theory Spec2Isabelle
  imports Complex_Main "HOL-Library.Char_ord" "HOL-Library.List_Lexorder" "HOL-Library.Log_Nat"
begin

section \<open>JavaScript values\<close>

text \<open>
  The controllers compute with JavaScript numbers, strings and booleans. A number is
  modelled as \<open>NaN\<close>, the two infinities, negative zero, or a finite value \<open>Fin r\<close> with
  \<open>r\<close> an exact rational (\<open>Fin 0\<close> is positive zero). Rounding to a binary double is
  not modelled: every operation below is exact on the integers of magnitude below
  \<open>2^53\<close> (page numbers, limits, counts, millisecond time stamps), and rounding is monotone,
  so an order between two exact decimals is kept (possibly as equality) by their doubles.
\<close>

datatype jsnum = NaN | PInf | NInf | NZero | Fin rat

datatype jsval = Undefined | Null | JBool bool | JNum jsnum | JStr string

text \<open>ToBoolean, as \<open>if (x)\<close> and \<open>!x\<close> apply it.\<close>

fun truthy :: "jsval \<Rightarrow> bool" where
  "truthy Undefined = False"
| "truthy Null = False"
| "truthy (JBool b) = b"
| "truthy (JNum NaN) = False"
| "truthy (JNum NZero) = False"
| "truthy (JNum (Fin r)) = (r \<noteq> 0)"
| "truthy (JNum PInf) = True"
| "truthy (JNum NInf) = True"
| "truthy (JStr s) = (s \<noteq> [])"

text \<open>The sign bit and the numeric value of a number that is not \<open>NaN\<close> or infinite.\<close>

fun js_neg :: "jsnum \<Rightarrow> bool" where
  "js_neg NInf = True"
| "js_neg NZero = True"
| "js_neg (Fin r) = (r < 0)"
| "js_neg _ = False"

fun js_val :: "jsnum \<Rightarrow> rat" where
  "js_val (Fin r) = r"
| "js_val _ = 0"

fun js_finite :: "jsnum \<Rightarrow> bool" where
  "js_finite (Fin r) = True"
| "js_finite NZero = True"
| "js_finite _ = False"

definition js_zero :: "bool \<Rightarrow> jsnum" where
  "js_zero negative = (if negative then NZero else Fin 0)"

definition js_inf :: "bool \<Rightarrow> jsnum" where
  "js_inf negative = (if negative then NInf else PInf)"

definition js_fin :: "bool \<Rightarrow> rat \<Rightarrow> jsnum" where
  \<comment> \<open>a finite result; the sign of a zero result is given separately\<close>
  "js_fin negative r = (if r = 0 then js_zero negative else Fin r)"

text \<open>\<open>a < b\<close>; every comparison with \<open>NaN\<close> is false, and the two zeros are equal.\<close>

fun js_lt :: "jsnum \<Rightarrow> jsnum \<Rightarrow> bool" where
  "js_lt NaN b = False"
| "js_lt a NaN = False"
| "js_lt PInf b = False"
| "js_lt a NInf = False"
| "js_lt NInf b = True"
| "js_lt a PInf = True"
| "js_lt a b = (js_val a < js_val b)"

definition js_gt :: "jsnum \<Rightarrow> jsnum \<Rightarrow> bool" where
  "js_gt a b = js_lt b a"


text \<open>\<open>a - b\<close>, \<open>a * b\<close>, \<open>a / b\<close> and \<open>Math.ceil\<close>, with the IEEE special cases.\<close>

definition js_sub :: "jsnum \<Rightarrow> jsnum \<Rightarrow> jsnum" where
  "js_sub a b =
     (if a = NaN \<or> b = NaN then NaN
      else if js_finite a \<and> js_finite b
        then js_fin (a = NZero \<and> b = Fin 0) (js_val a - js_val b)
      else if js_finite b then a
      else if js_finite a then js_inf (b = PInf)
      else if a = b then NaN else a)"

definition js_mul :: "jsnum \<Rightarrow> jsnum \<Rightarrow> jsnum" where
  "js_mul a b =
     (if a = NaN \<or> b = NaN then NaN
      else if js_finite a \<and> js_finite b
        then js_fin (js_neg a \<noteq> js_neg b) (js_val a * js_val b)
      else if (js_finite a \<and> js_val a = 0) \<or> (js_finite b \<and> js_val b = 0) then NaN
      else js_inf (js_neg a \<noteq> js_neg b))"

definition js_div :: "jsnum \<Rightarrow> jsnum \<Rightarrow> jsnum" where
  "js_div a b =
     (if a = NaN \<or> b = NaN then NaN
      else if js_finite a \<and> js_finite b
        then (if js_val b = 0
              then (if js_val a = 0 then NaN else js_inf (js_neg a \<noteq> js_neg b))
              else js_fin (js_neg a \<noteq> js_neg b) (js_val a / js_val b))
      else if js_finite b then js_inf (js_neg a \<noteq> js_neg b)
      else if js_finite a then js_zero (js_neg a \<noteq> js_neg b)
      else NaN)"

fun js_ceil :: "jsnum \<Rightarrow> jsnum" where
  "js_ceil (Fin r) = js_fin (r < 0) (of_int \<lceil>r\<rceil>)"
| "js_ceil a = a"

text \<open>\<open>x || 0\<close> on a number.\<close>

definition or_zero :: "jsnum \<Rightarrow> jsnum" where
  "or_zero a = (if truthy (JNum a) then a else Fin 0)"

subsection \<open>Strings\<close>

text \<open>
  A string is a list of bytes. \<open>toLowerCase\<close> is modelled on the ASCII letters; other
  bytes are kept.
\<close>

definition lower_char :: "char \<Rightarrow> char" where
  "lower_char c =
     (case map_of (zip ''ABCDEFGHIJKLMNOPQRSTUVWXYZ'' ''abcdefghijklmnopqrstuvwxyz'') c of
        Some d \<Rightarrow> d
      | None \<Rightarrow> c)"

definition toLowerCase :: "string \<Rightarrow> string" where
  "toLowerCase s = map lower_char s"

fun starts_with :: "string \<Rightarrow> string \<Rightarrow> bool" where
  "starts_with s [] = True"
| "starts_with [] (c # cs) = False"
| "starts_with (d # ds) (c # cs) = (d = c \<and> starts_with ds cs)"

text \<open>\<open>hay.includes(needle)\<close>: the needle occurs as a contiguous substring.\<close>

fun str_includes :: "string \<Rightarrow> string \<Rightarrow> bool" where
  "str_includes [] needle = (needle = [])"
| "str_includes (c # cs) needle = (starts_with (c # cs) needle \<or> str_includes cs needle)"

subsection \<open>parseInt and parseFloat\<close>

text \<open>
  Strings are lists of 8-bit characters, so the white space skipped at the start of a
  numeric string is the ASCII part of what JavaScript skips: tab, line feed, vertical tab,
  form feed, carriage return and space.
\<close>

definition is_ws :: "char \<Rightarrow> bool" where
  "is_ws c = ((of_char c :: nat) \<in> {9, 10, 11, 12, 13, 32})"

definition is_digit :: "char \<Rightarrow> bool" where
  "is_digit c = (48 \<le> (of_char c :: nat) \<and> (of_char c :: nat) \<le> 57)"

definition hex_val :: "char \<Rightarrow> nat option" where
  "hex_val c =
     (let n = (of_char c :: nat) in
      if 48 \<le> n \<and> n \<le> 57 then Some (n - 48)
      else if 97 \<le> n \<and> n \<le> 102 then Some (n - 87)
      else if 65 \<le> n \<and> n \<le> 70 then Some (n - 55)
      else None)"

definition digits_val :: "string \<Rightarrow> nat" where
  "digits_val ds = foldl (\<lambda>a c. 10 * a + ((of_char c :: nat) - 48)) 0 ds"

definition hex_digits_val :: "string \<Rightarrow> nat" where
  "hex_digits_val ds = foldl (\<lambda>a c. 16 * a + (case hex_val c of Some d \<Rightarrow> d | None \<Rightarrow> 0)) 0 ds"

text \<open>An optional sign in front of the rest of the string.\<close>

fun take_sign :: "string \<Rightarrow> bool \<times> string" where
  "take_sign [] = (False, [])"
| "take_sign (c # cs) =
     (if c = CHR ''-'' then (True, cs) else if c = CHR ''+'' then (False, cs) else (False, c # cs))"

text \<open>
  \<open>parseInt(s)\<close> with no radix: leading white space, a sign, a \<open>0x\<close> prefix for
  hexadecimal, then the longest run of digits; \<open>NaN\<close> when that run is empty.
\<close>

definition parseInt_str :: "string \<Rightarrow> jsnum" where
  "parseInt_str s =
     (let (negative, r) = take_sign (dropWhile is_ws s) in
      if starts_with r ''0x'' \<or> starts_with r ''0X''
      then (let ds = takeWhile (\<lambda>c. hex_val c \<noteq> None) (drop 2 r) in
            if ds = [] then NaN
            else js_fin negative ((if negative then - 1 else 1) * of_nat (hex_digits_val ds)))
      else (let ds = takeWhile is_digit r in
            if ds = [] then NaN
            else js_fin negative ((if negative then - 1 else 1) * of_nat (digits_val ds))))"

text \<open>The exponent part \<open>e[+-]digits\<close> of a decimal literal, \<open>0\<close> when there is none.\<close>

definition exponent_part :: "string \<Rightarrow> int" where
  "exponent_part r =
     (case r of
        [] \<Rightarrow> 0
      | c # cs \<Rightarrow>
          if c = CHR ''e'' \<or> c = CHR ''E''
          then (let (negative, r') = take_sign cs; ds = takeWhile is_digit r' in
                if ds = [] then 0
                else (if negative then - int (digits_val ds) else int (digits_val ds)))
          else 0)"

definition pow10 :: "int \<Rightarrow> rat" where
  "pow10 e = (if 0 \<le> e then 10 ^ nat e else 1 / 10 ^ nat (- e))"

text \<open>
  \<open>parseFloat(s)\<close>: leading white space, a sign, then \<open>Infinity\<close> or the longest prefix
  that is a decimal literal (digits, an optional fraction, an optional exponent).
\<close>

definition parseFloat_str :: "string \<Rightarrow> jsnum" where
  "parseFloat_str s =
     (let (negative, r) = take_sign (dropWhile is_ws s) in
      if starts_with r ''Infinity'' then js_inf negative
      else
        (let ip = takeWhile is_digit r;
             r1 = dropWhile is_digit r;
             has_point = starts_with r1 ''.'';
             fp = (if has_point then takeWhile is_digit (drop 1 r1) else []);
             r2 = (if has_point then dropWhile is_digit (drop 1 r1) else r1)
         in if ip = [] \<and> fp = [] then NaN
            else js_fin negative
                   ((if negative then - 1 else 1)
                    * (of_nat (digits_val ip) + of_nat (digits_val fp) / 10 ^ length fp)
                    * pow10 (exponent_part r2))))"

text \<open>
  On a value that is not a string both functions first apply ToString. The text of
  \<open>undefined\<close>, \<open>null\<close>, \<open>true\<close> and \<open>false\<close> has no digits. The text of a number reads back
  as the same number with \<open>parseFloat\<close> (of \<open>-0\<close> it is \<open>0\<close>). \<open>parseInt\<close> reads
  the integer part of a number printed in plain notation (magnitude from \<open>10^-6\<close> up to
  \<open>10^21\<close>) and the leading digit of one printed in exponent notation; the leading digit is
  taken of the exact value here.
\<close>

definition lead_digit :: "rat \<Rightarrow> int" where
  "lead_digit r =
     (if 1 \<le> r
      then (let n = nat \<lfloor>r\<rfloor> in int (n div 10 ^ (floorlog 10 n - 1)))
      else (let k = floorlog 10 (nat \<lfloor>1 / r\<rfloor>); x = r * 10 ^ k in
            if 10 \<le> x then 1 else \<lfloor>x\<rfloor>))"

fun parseInt_num :: "jsnum \<Rightarrow> jsnum" where
  "parseInt_num (Fin r) =
     (if r = 0 then Fin 0
      else if \<bar>r\<bar> < 1 / 10 ^ 6 \<or> 10 ^ 21 \<le> \<bar>r\<bar>
      then Fin (of_int ((if r < 0 then - 1 else 1) * lead_digit \<bar>r\<bar>))
      else js_fin (r < 0) (of_int ((if r < 0 then - 1 else 1) * \<lfloor>\<bar>r\<bar>\<rfloor>)))"
| "parseInt_num NZero = Fin 0"
| "parseInt_num a = NaN"

fun parseInt :: "jsval \<Rightarrow> jsnum" where
  "parseInt (JStr s) = parseInt_str s"
| "parseInt (JNum a) = parseInt_num a"
| "parseInt v = NaN"

fun parseFloat :: "jsval \<Rightarrow> jsnum" where
  "parseFloat (JStr s) = parseFloat_str s"
| "parseFloat (JNum NZero) = Fin 0"
| "parseFloat (JNum a) = a"
| "parseFloat v = NaN"

section \<open>Responses\<close>

text \<open>
  A handler either passes an error to \<open>next\<close> or sends a JSON body with a status.
  \<open>CustomError\<close> carries the HTTP status and the message; \<open>Thrown\<close> stands for an
  exception thrown by the document store (a value it cannot cast, a directive it
  rejects) or by another collaborator, which \<open>asyncHandler\<close> passes on.
\<close>

datatype error = CustomError nat string | Thrown

type_synonym 'a response = "error + nat \<times> 'a"

text \<open>\<open>req.body\<close>: a key that is absent reads as \<open>undefined\<close>.\<close>

type_synonym body = "string \<Rightarrow> jsval"

section \<open>Settings\<close>

text \<open>
  The body of the settings update is parsed JSON. \<open>JUndefined\<close> is what reading an absent
  key gives. A number is a finite rational (the two zeros are one); an object is the list
  of its keys and values as the parser leaves them, each key once.
\<close>

datatype json = JUndefined | JNull | JBoolean bool | JNumber rat | JString string
  | JArray "json list" | JObject "(string \<times> json) list"

type_synonym json_body = "string \<Rightarrow> json"

text \<open>ToBoolean on such a value.\<close>

fun json_truthy :: "json \<Rightarrow> bool" where
  "json_truthy JUndefined = False"
| "json_truthy JNull = False"
| "json_truthy (JBoolean b) = b"
| "json_truthy (JNumber r) = (r \<noteq> 0)"
| "json_truthy (JString s) = (s \<noteq> [])"
| "json_truthy (JArray xs) = True"
| "json_truthy (JObject kvs) = True"

text \<open>
  The schema of \<open>settings.model.js\<close> decides what an assignment to a path of the document
  stores. The ODM casts the assigned value to the type of the path. \<open>Value None\<close> is a
  nullish value, which is kept as it is; \<open>Refused\<close> is a value the schema does not take:
  the document then carries an error and \<open>save\<close> rejects it.
\<close>

datatype 'a assigned = Value "'a option" | Refused

text \<open>
  The cast to \<open>String\<close>. A string is itself; a boolean or a number is its text, the text of
  a number being the engine's (\<open>number_toString\<close>, taken from outside: a rational carries
  no rounding); an object with a non-empty string \<open>_id\<close> is that identifier; any other
  object and every array is refused.
\<close>

fun castString :: "(rat \<Rightarrow> string) \<Rightarrow> json \<Rightarrow> string assigned" where
  "castString number_toString JUndefined = Value None"
| "castString number_toString JNull = Value None"
| "castString number_toString (JString s) = Value (Some s)"
| "castString number_toString (JBoolean b) = Value (Some (if b then ''true'' else ''false''))"
| "castString number_toString (JNumber r) = Value (Some (number_toString r))"
| "castString number_toString (JArray xs) = Refused"
| "castString number_toString (JObject kvs) =
     (case map_of kvs ''_id'' of
        Some (JString i) \<Rightarrow> if i \<noteq> [] then Value (Some i) else Refused
      | _ \<Rightarrow> Refused)"

text \<open>
  The cast to \<open>Boolean\<close>: \<open>true\<close>, \<open>'true'\<close>, \<open>1\<close>, \<open>'1'\<close> and \<open>'yes'\<close> are true; \<open>false\<close>,
  \<open>'false'\<close>, \<open>0\<close>, \<open>'0'\<close> and \<open>'no'\<close> are false; any other value that is not nullish is
  refused.
\<close>

fun castBoolean :: "json \<Rightarrow> bool assigned" where
  "castBoolean JUndefined = Value None"
| "castBoolean JNull = Value None"
| "castBoolean (JBoolean b) = Value (Some b)"
| "castBoolean (JString s) =
     (if s = ''true'' \<or> s = ''1'' \<or> s = ''yes'' then Value (Some True)
      else if s = ''false'' \<or> s = ''0'' \<or> s = ''no'' then Value (Some False)
      else Refused)"
| "castBoolean (JNumber r) =
     (if r = 1 then Value (Some True) else if r = 0 then Value (Some False) else Refused)"
| "castBoolean (JArray xs) = Refused"
| "castBoolean (JObject kvs) = Refused"

text \<open>\<open>trim\<close>: the white space at both ends is removed.\<close>

definition js_trim :: "string \<Rightarrow> string" where
  "js_trim s = rev (dropWhile is_ws (rev (dropWhile is_ws s)))"

text \<open>A \<open>String\<close> path: its setters (\<open>trim\<close>, \<open>lowercase\<close>) are applied to the cast string.\<close>

definition String_path :: "(rat \<Rightarrow> string) \<Rightarrow> (string \<Rightarrow> string) \<Rightarrow> json \<Rightarrow> string assigned" where
  "String_path number_toString setters v =
     (case castString number_toString v of
        Value t \<Rightarrow> Value (map_option setters t)
      | Refused \<Rightarrow> Refused)"

text \<open>The enumeration of the \<open>currency\<close> path.\<close>

datatype currency = USD | EUR | GBP | JPY | PKR

definition currency_enum :: "(string \<times> currency) list" where
  "currency_enum =
     [(''USD'', USD), (''EUR'', EUR), (''GBP'', GBP), (''JPY'', JPY), (''PKR'', PKR)]"

text \<open>
  The settings document. \<open>None\<close> is a path that holds null. The currency of a stored
  document is one of the enumeration: the store holds only documents that validation has
  passed. The identifier and the time stamps of the document are not represented.
\<close>

record settings =
  siteName :: "string option"
  siteDescription :: "string option"
  contactEmail :: "string option"
  contactPhone :: "string option"
  currency :: "currency option"
  timezone :: "string option"
  maintenanceMode :: "bool option"

text \<open>
  The seven paths as the schema declares them: \<open>siteName\<close>, \<open>siteDescription\<close> and
  \<open>contactPhone\<close> are trimmed strings, \<open>contactEmail\<close> is lower-cased and trimmed,
  \<open>currency\<close> is a string of the enumeration, \<open>timezone\<close> a string, \<open>maintenanceMode\<close> a
  boolean. The enumeration is a validator, which \<open>save\<close> runs: a currency outside it is
  counted as refused at the assignment already, nothing reading the document in between.
\<close>

definition schema_siteName :: "(rat \<Rightarrow> string) \<Rightarrow> json \<Rightarrow> string assigned" where
  "schema_siteName number_toString v = String_path number_toString js_trim v"

definition schema_siteDescription :: "(rat \<Rightarrow> string) \<Rightarrow> json \<Rightarrow> string assigned" where
  "schema_siteDescription number_toString v = String_path number_toString js_trim v"

definition schema_contactEmail :: "(rat \<Rightarrow> string) \<Rightarrow> json \<Rightarrow> string assigned" where
  "schema_contactEmail number_toString v =
     String_path number_toString (\<lambda>s. js_trim (toLowerCase s)) v"

definition schema_contactPhone :: "(rat \<Rightarrow> string) \<Rightarrow> json \<Rightarrow> string assigned" where
  "schema_contactPhone number_toString v = String_path number_toString js_trim v"

definition schema_currency :: "(rat \<Rightarrow> string) \<Rightarrow> json \<Rightarrow> currency assigned" where
  "schema_currency number_toString v =
     (case castString number_toString v of
        Value None \<Rightarrow> Value None
      | Value (Some s) \<Rightarrow>
          (case map_of currency_enum s of Some c \<Rightarrow> Value (Some c) | None \<Rightarrow> Refused)
      | Refused \<Rightarrow> Refused)"

definition schema_timezone :: "(rat \<Rightarrow> string) \<Rightarrow> json \<Rightarrow> string assigned" where
  "schema_timezone number_toString v = String_path number_toString (\<lambda>s. s) v"

definition schema_maintenanceMode :: "json \<Rightarrow> bool assigned" where
  "schema_maintenanceMode v = castBoolean v"

text \<open>The defaults of the schema.\<close>

definition settings_defaults :: settings where
  "settings_defaults =
     \<lparr> siteName = Some ''E-commerce Store'',
       siteDescription = Some ''Welcome to our online store'',
       contactEmail = Some ''admin@example.com'',
       contactPhone = Some ''+1234567890'',
       currency = Some USD,
       timezone = Some ''UTC'',
       maintenanceMode = Some False \<rparr>"

text \<open>
  \<open>Settings.getSettings\<close>: the collection holds at most the one document; it is created
  with the defaults when there is none. Returns the document and the collection.
\<close>

definition getSettings_static :: "settings option \<Rightarrow> settings \<times> settings option" where
  "getSettings_static coll =
     (case coll of
        Some s \<Rightarrow> (s, Some s)
      | None \<Rightarrow> (settings_defaults, Some settings_defaults))"

definition getSettings :: "settings option \<Rightarrow> settings response \<times> settings option" where
  "getSettings coll = (let (s, coll') = getSettings_static coll in (Inr (200, s), coll'))"

text \<open>
  The document between \<open>getSettings\<close> and \<open>save\<close>: the values of its paths, and whether an
  assignment to it was refused.
\<close>

record document =
  paths :: settings
  refused :: bool

text \<open>\<open>settings.path = value\<close>: the schema's value is put on the path, or the document is marked.\<close>

definition assign :: "'a assigned \<Rightarrow> ('a option \<Rightarrow> settings \<Rightarrow> settings) \<Rightarrow> document \<Rightarrow> document" where
  "assign a put d =
     (case a of
        Value v \<Rightarrow> d\<lparr>paths := put v (paths d)\<rparr>
      | Refused \<Rightarrow> d\<lparr>refused := True\<rparr>)"

text \<open>
  \<open>settings.save()\<close>: a marked document is rejected and nothing of it is stored;
  \<open>asyncHandler\<close> passes the error on.
\<close>

definition save :: "document \<Rightarrow> settings option" where
  "save d = (if refused d then None else Some (paths d))"

text \<open>
  The handler: each of the six text fields is assigned when the payload's value is truthy,
  \<open>maintenanceMode\<close> when its key is present; then the document is saved and returned.
\<close>

definition updateSettings ::
  "(rat \<Rightarrow> string) \<Rightarrow> settings option \<Rightarrow> json_body \<Rightarrow> settings response \<times> settings option" where
  "updateSettings number_toString coll b =
     (let (settings, coll') = getSettings_static coll;
          d0 = \<lparr> paths = settings, refused = False \<rparr>;
          d1 = (if json_truthy (b ''siteName'')
                then assign (schema_siteName number_toString (b ''siteName''))
                       (\<lambda>v s. s\<lparr>siteName := v\<rparr>) d0
                else d0);
          d2 = (if json_truthy (b ''siteDescription'')
                then assign (schema_siteDescription number_toString (b ''siteDescription''))
                       (\<lambda>v s. s\<lparr>siteDescription := v\<rparr>) d1
                else d1);
          d3 = (if json_truthy (b ''contactEmail'')
                then assign (schema_contactEmail number_toString (b ''contactEmail''))
                       (\<lambda>v s. s\<lparr>contactEmail := v\<rparr>) d2
                else d2);
          d4 = (if json_truthy (b ''contactPhone'')
                then assign (schema_contactPhone number_toString (b ''contactPhone''))
                       (\<lambda>v s. s\<lparr>contactPhone := v\<rparr>) d3
                else d3);
          d5 = (if json_truthy (b ''currency'')
                then assign (schema_currency number_toString (b ''currency''))
                       (\<lambda>v s. s\<lparr>currency := v\<rparr>) d4
                else d4);
          d6 = (if json_truthy (b ''timezone'')
                then assign (schema_timezone number_toString (b ''timezone''))
                       (\<lambda>v s. s\<lparr>timezone := v\<rparr>) d5
                else d5);
          d7 = (if b ''maintenanceMode'' \<noteq> JUndefined
                then assign (schema_maintenanceMode (b ''maintenanceMode''))
                       (\<lambda>v s. s\<lparr>maintenanceMode := v\<rparr>) d6
                else d6)
      in case save d7 of
           None \<Rightarrow> (Inl Thrown, coll')
         | Some saved \<Rightarrow> (Inr (200, saved), Some saved))"

section \<open>Dates\<close>

text \<open>
  A time stamp is the number of milliseconds since 1970-01-01T00:00:00Z. The civil
  calendar is the proleptic Gregorian one; days are counted from the epoch.
\<close>

definition ms_per_day :: int where
  "ms_per_day = 24 * 60 * 60 * 1000"

definition days_from_civil :: "int \<Rightarrow> int \<Rightarrow> int \<Rightarrow> int" where
  "days_from_civil y m d =
     (let y' = (if m \<le> 2 then y - 1 else y);
          era = y' div 400;
          yoe = y' - era * 400;
          mp = (m + 9) mod 12;
          doy = (153 * mp + 2) div 5 + d - 1;
          doe = yoe * 365 + yoe div 4 - yoe div 100 + doy
      in era * 146097 + doe - 719468)"

definition civil_from_days :: "int \<Rightarrow> int \<times> int \<times> int" where
  "civil_from_days z0 =
     (let z = z0 + 719468;
          era = z div 146097;
          doe = z - era * 146097;
          yoe = (doe - doe div 1460 + doe div 36524 - doe div 146096) div 365;
          doy = doe - (365 * yoe + yoe div 4 - yoe div 100);
          mp = (5 * doy + 2) div 153;
          d = doy - (153 * mp + 2) div 5 + 1;
          m = (if mp < 10 then mp + 3 else mp - 9)
      in (if m \<le> 2 then yoe + era * 400 + 1 else yoe + era * 400, m, d))"

definition utc_year :: "int \<Rightarrow> int" where
  "utc_year t = fst (civil_from_days (t div ms_per_day))"

definition utc_month :: "int \<Rightarrow> int" where
  "utc_month t = fst (snd (civil_from_days (t div ms_per_day)))"

definition utc_day :: "int \<Rightarrow> int" where
  "utc_day t = snd (snd (civil_from_days (t div ms_per_day)))"

text \<open>
  The ISO 8601 week of a day is the week (Monday to Sunday) that holds it; the week
  belongs to the year of its Thursday and is numbered from the week of that year's first
  Thursday. 1970-01-01 was a Thursday.
\<close>

definition iso_thursday :: "int \<Rightarrow> int" where
  "iso_thursday t = (let z = t div ms_per_day in z - (z + 3) mod 7 + 3)"

definition iso_week_year :: "int \<Rightarrow> int" where
  "iso_week_year t = fst (civil_from_days (iso_thursday t))"

definition iso_week :: "int \<Rightarrow> int" where
  "iso_week t = (iso_thursday t - days_from_civil (iso_week_year t) 1 1) div 7 + 1"

text \<open>A number in a field of fixed width, zero padded.\<close>

primrec pad_digits :: "nat \<Rightarrow> nat \<Rightarrow> string" where
  "pad_digits 0 n = []"
| "pad_digits (Suc w) n = pad_digits w (n div 10) @ [''0123456789'' ! (n mod 10)]"

text \<open>
  The store's \<open>$dateToString\<close> in UTC (no time zone is given by the controller), for the
  specifiers the controller uses: \<open>%Y\<close> the calendar year, \<open>%m\<close> the month, \<open>%d\<close> the day
  of the month, \<open>%V\<close> the ISO week number. Any other character is copied.
\<close>

definition date_specifier :: "char \<Rightarrow> int \<Rightarrow> string" where
  "date_specifier f t =
     (if f = CHR ''Y'' then pad_digits 4 (nat (utc_year t))
      else if f = CHR ''m'' then pad_digits 2 (nat (utc_month t))
      else if f = CHR ''d'' then pad_digits 2 (nat (utc_day t))
      else if f = CHR ''V'' then pad_digits 2 (nat (iso_week t))
      else [CHR ''%'', f])"

fun dateToString :: "string \<Rightarrow> int \<Rightarrow> string" where
  "dateToString [] t = []"
| "dateToString [c] t = [c]"
| "dateToString (c # f # cs) t =
     (if c = CHR ''%'' then date_specifier f t @ dateToString cs t
      else c # dateToString (f # cs) t)"

text \<open>
  \<open>new Date(string)\<close>. A date-only ISO string \<open>YYYY-MM-DD\<close> that names a day of the
  calendar is midnight UTC of that day. How any other string is read is left to the
  engine (\<open>date_fallback\<close>); \<open>InvalidDate\<close> is the date whose time value is \<open>NaN\<close>.
\<close>

datatype jsdate = Date int | InvalidDate

definition days_in_month :: "int \<Rightarrow> int \<Rightarrow> int" where
  "days_in_month y m =
     (if m = 2 then (if y mod 4 = 0 \<and> (y mod 100 \<noteq> 0 \<or> y mod 400 = 0) then 29 else 28)
      else if m \<in> {4, 6, 9, 11} then 30 else 31)"

definition parse_iso_date :: "string \<Rightarrow> int option" where
  "parse_iso_date s =
     (if length s = 10 \<and> s ! 4 = CHR ''-'' \<and> s ! 7 = CHR ''-''
         \<and> list_all is_digit (take 4 s @ take 2 (drop 5 s) @ drop 8 s)
      then (let y = int (digits_val (take 4 s));
                m = int (digits_val (take 2 (drop 5 s)));
                d = int (digits_val (drop 8 s))
            in if 1 \<le> m \<and> m \<le> 12 \<and> 1 \<le> d \<and> d \<le> days_in_month y m
               then Some (days_from_civil y m d * ms_per_day) else None)
      else None)"

definition new_Date :: "(string \<Rightarrow> jsdate) \<Rightarrow> string \<Rightarrow> jsdate" where
  "new_Date date_fallback s =
     (case parse_iso_date s of Some t \<Rightarrow> Date t | None \<Rightarrow> date_fallback s)"

text \<open>
  \<open>date.setHours(h, m, s, ms)\<close> works in the local time of the server: it keeps the
  local calendar day of the date and replaces the time within that day. The local time
  zone is a fixed offset \<open>tz\<close> in milliseconds east of UTC (local time = UTC + \<open>tz\<close>).
\<close>

fun setHours :: "int \<Rightarrow> jsdate \<Rightarrow> int \<Rightarrow> int \<Rightarrow> int \<Rightarrow> int \<Rightarrow> jsdate" where
  "setHours tz InvalidDate h mi sec ms = InvalidDate"
| "setHours tz (Date t) h mi sec ms =
     Date (((t + tz) div ms_per_day) * ms_per_day + ((h * 60 + mi) * 60 + sec) * 1000 + ms - tz)"

section \<open>Documents and the environment\<close>

text \<open>
  An \<open>ObjectId\<close> is a sequence of half-bytes; its text is their lower-case hexadecimal
  digits.
\<close>

datatype objectid = ObjectId "nat list"

definition hex_char :: "nat \<Rightarrow> char" where
  "hex_char d = ''0123456789abcdef'' ! (d mod 16)"

fun oid_toString :: "objectid \<Rightarrow> string" where
  "oid_toString (ObjectId ds) = map hex_char ds"

text \<open>
  Modelled from the spec: the PaymentIntent, Order and Customer schemas
  (\<open>paymentIntent.model.js\<close> and the models it refers to are not among the sources). A
  payment is kept as the controller reads it after \<open>populate\<close>: the order and its customer
  joined in, each possibly missing.
\<close>

record customer =
  name :: "string option"
  email :: "string option"

record order_doc =
  order_id :: objectid
  customer :: "customer option"

record payment =
  intentId :: "string option"
  totalAmount :: rat
  status :: string
  order :: "order_doc option"
  createdAt :: int

text \<open>
  Modelled from the spec: the Product schema (\<open>product.model.js\<close> is not among the
  sources). The document holds the values the controller assigns; the schema's casting
  and validation are not modelled. \<open>None\<close> is a field that is not set.
\<close>

record image =
  public_id :: string
  url :: string

record uploaded =
  uploaded_public_id :: string
  secure_url :: string

record product =
  doc_id :: string
  name :: jsval
  description :: jsval
  price :: jsnum
  category :: jsval
  stock :: jsnum
  images :: "image list"
  owner :: string
  is_featured :: jsval
  is_flash_sale :: "bool option"
  flash_sale_price :: "jsnum option"
  flash_sale_start :: "int option"
  flash_sale_end :: "int option"

text \<open>
  What the controllers take from outside: the clock, the server's time zone, the
  engine's reading of date strings, the store's ordering of a result by a field and a
  direction, its case-insensitive regular-expression match (pattern, subject), the
  identifier check of the ODM and the identifier it gives a new document, the image
  host's upload (no result when it fails) and removal (false when it throws), the
  reading of the \<open>existingImages\<close> field as a JSON list of images (no result when
  \<open>JSON.parse\<close> throws or the value cannot be spread), and what the store makes of a
  skip or limit that is \<open>NaN\<close> (the number it reads instead, or nothing when it throws).
\<close>

record env =
  now :: int
  tz :: int
  date_fallback :: "string \<Rightarrow> jsdate"
  sort_payments :: "string \<Rightarrow> int \<Rightarrow> payment list \<Rightarrow> payment list"
  sort_products :: "string \<Rightarrow> int \<Rightarrow> product list \<Rightarrow> product list"
  regex_i :: "string \<Rightarrow> string \<Rightarrow> bool"
  isValidObjectId :: "string \<Rightarrow> bool"
  new_ObjectId :: string
  uploadMultipleOnCloudinary :: "string list \<Rightarrow> uploaded list option"
  removeMultipleFromCloudinary :: "string list \<Rightarrow> bool"
  JSON_parse_images :: "jsval \<Rightarrow> image list option"
  nan_directive :: "jsnum option"

text \<open>
  \<open>req.query\<close>: every value is a string. A destructuring default applies when the key is
  absent; the numeric defaults are numbers, not strings.
\<close>

type_synonym query = "string \<Rightarrow> string option"

definition str_param :: "query \<Rightarrow> string \<Rightarrow> string \<Rightarrow> string" where
  "str_param q k d = (case q k of None \<Rightarrow> d | Some s \<Rightarrow> s)"

definition num_param :: "query \<Rightarrow> string \<Rightarrow> rat \<Rightarrow> jsval" where
  "num_param q k d = (case q k of None \<Rightarrow> JNum (Fin d) | Some s \<Rightarrow> JStr s)"

text \<open>
  \<open>.skip(skip).limit(limit)\<close> on a result. The store throws on a negative skip; a limit
  of zero is no limit, and the driver sends a negative limit as its absolute value. A
  directive that is \<open>NaN\<close> is read as the environment says; an infinite one does not
  arise from \<open>parseInt\<close> and is taken to throw.
\<close>

definition read_directive :: "env \<Rightarrow> jsnum \<Rightarrow> jsnum option" where
  "read_directive e d = (if d = NaN then nan_directive e else Some d)"

definition store_page :: "env \<Rightarrow> jsnum \<Rightarrow> jsnum \<Rightarrow> 'a list \<Rightarrow> 'a list option" where
  "store_page e skip limit xs =
     (case (read_directive e skip, read_directive e limit) of
        (Some s, Some l) \<Rightarrow>
          if js_finite s \<and> js_finite l \<and> 0 \<le> js_val s
          then Some (let ys = drop (nat \<lfloor>js_val s\<rfloor>) xs in
                     if js_val l = 0 then ys else take (nat \<lfloor>\<bar>js_val l\<bar>\<rfloor>) ys)
          else None
      | _ \<Rightarrow> None)"

text \<open>The pagination part of a listing response.\<close>

record pagination =
  currentPage :: jsnum
  totalPages :: jsnum
  hasNext :: bool
  hasPrev :: bool

record payments_pagination = pagination +
  totalPayments :: nat


section \<open>Payments controller\<close>

subsection \<open>getAllPayments\<close>

record payments_query =
  query_status :: "string option"
  query_createdAt :: "(jsdate option \<times> jsdate option) option"

text \<open>The filter the handler builds from \<open>status\<close>, \<open>startDate\<close> and \<open>endDate\<close>.\<close>

definition build_payments_query :: "env \<Rightarrow> query \<Rightarrow> payments_query" where
  "build_payments_query e q =
     (let status = str_param q ''status'' [];
          startDate = str_param q ''startDate'' [];
          endDate = str_param q ''endDate'' []
      in \<lparr> query_status = (if status \<noteq> [] \<and> status \<noteq> ''all'' then Some status else None),
           query_createdAt =
             (if startDate \<noteq> [] \<or> endDate \<noteq> []
              then Some
                (if startDate \<noteq> [] then Some (new_Date (date_fallback e) startDate) else None,
                 if endDate \<noteq> []
                 then Some (setHours (tz e) (new_Date (date_fallback e) endDate) 23 59 59 999)
                 else None)
              else None) \<rparr>)"

text \<open>The store casts the filter first and throws on an invalid date.\<close>

definition payments_query_ok :: "payments_query \<Rightarrow> bool" where
  "payments_query_ok pq =
     (case query_createdAt pq of
        None \<Rightarrow> True
      | Some (lo, hi) \<Rightarrow> lo \<noteq> Some InvalidDate \<and> hi \<noteq> Some InvalidDate)"

definition matches_payment :: "payments_query \<Rightarrow> payment \<Rightarrow> bool" where
  "matches_payment pq p =
     ((case query_status pq of None \<Rightarrow> True | Some s \<Rightarrow> status p = s) \<and>
      (case query_createdAt pq of
         None \<Rightarrow> True
       | Some (lo, hi) \<Rightarrow>
           (case lo of Some (Date t) \<Rightarrow> t \<le> createdAt p | _ \<Rightarrow> True) \<and>
           (case hi of Some (Date t) \<Rightarrow> createdAt p \<le> t | _ \<Rightarrow> True)))"

text \<open>The in-memory search filter applied to the fetched page.\<close>

definition search_matches :: "string \<Rightarrow> payment \<Rightarrow> bool" where
  "search_matches search p =
     (let searchLower = toLowerCase search;
          cust = (case order p of None \<Rightarrow> None | Some ord \<Rightarrow> customer ord);
          customerName =
            (case cust of None \<Rightarrow> []
             | Some c \<Rightarrow> (case customer.name c of None \<Rightarrow> [] | Some n \<Rightarrow> toLowerCase n));
          customerEmail =
            (case cust of None \<Rightarrow> []
             | Some c \<Rightarrow> (case email c of None \<Rightarrow> [] | Some m \<Rightarrow> toLowerCase m));
          intent = (case intentId p of None \<Rightarrow> [] | Some i \<Rightarrow> toLowerCase i);
          orderId = (case order p of None \<Rightarrow> [] | Some ord \<Rightarrow> oid_toString (order_id ord))
      in str_includes customerName searchLower \<or>
         str_includes customerEmail searchLower \<or>
         str_includes intent searchLower \<or>
         str_includes orderId searchLower)"

record payments_response =
  payments_data :: "payment list"
  payments_pagination :: payments_pagination

text \<open>The \<open>skip\<close> the handler computes from the raw \<open>page\<close> and \<open>limit\<close>.\<close>

definition skip_of :: "jsval \<Rightarrow> jsval \<Rightarrow> jsnum" where
  "skip_of page limit = js_mul (js_sub (parseInt page) (Fin 1)) (parseInt limit)"

definition getAllPayments :: "env \<Rightarrow> payment list \<Rightarrow> query \<Rightarrow> payments_response response" where
  "getAllPayments e coll q =
     (let page = num_param q ''page'' 1;
          limit = num_param q ''limit'' 10;
          search = str_param q ''search'' [];
          sortBy = str_param q ''sortBy'' ''createdAt'';
          sortOrder = str_param q ''sortOrder'' ''desc'';
          pq = build_payments_query e q;
          skip = skip_of page limit;
          direction = (if sortOrder = ''desc'' then - 1 else 1)
      in if \<not> payments_query_ok pq then Inl Thrown
         else
           (case store_page e skip (parseInt limit)
                   (sort_payments e sortBy direction (filter (matches_payment pq) coll)) of
              None \<Rightarrow> Inl Thrown
            | Some fetched \<Rightarrow>
                (let payments = (if search \<noteq> [] then filter (search_matches search) fetched
                                 else fetched);
                     total = length (filter (matches_payment pq) coll);
                     pages = js_ceil (js_div (Fin (of_nat total)) (parseInt limit))
                 in Inr (200,
                      \<lparr> payments_data = payments,
                        payments_pagination =
                          \<lparr> currentPage = parseInt page,
                            totalPages = pages,
                            hasNext = js_lt (parseInt page) pages,
                            hasPrev = js_gt (parseInt page) (Fin 1),
                            totalPayments = total \<rparr> \<rparr>))))"

subsection \<open>getPaymentAnalytics\<close>

text \<open>
  The store's \<open>$group\<close> stage with a \<open>$count\<close> and a \<open>$sum\<close> of \<open>totalAmount\<close>: one
  entry (key, count, sum) for each key that occurs, in order of first occurrence.
\<close>

fun group_insert :: "'k \<Rightarrow> rat \<Rightarrow> ('k \<times> nat \<times> rat) list \<Rightarrow> ('k \<times> nat \<times> rat) list" where
  "group_insert k a [] = [(k, 1, a)]"
| "group_insert k a ((k', c, s) # gs) =
     (if k = k' then (k', Suc c, s + a) # gs else (k', c, s) # group_insert k a gs)"

definition aggregate_group :: "(payment \<Rightarrow> 'k) \<Rightarrow> payment list \<Rightarrow> ('k \<times> nat \<times> rat) list" where
  "aggregate_group key ps = foldl (\<lambda>gs p. group_insert (key p) (totalAmount p) gs) [] ps"

text \<open>\<open>statusCounts.find(s => s._id === st)?.count || 0\<close> and the same for \<open>amount\<close>.\<close>

definition status_count :: "(string \<times> nat \<times> rat) list \<Rightarrow> string \<Rightarrow> nat" where
  "status_count groups st =
     (case find (\<lambda>g. fst g = st) groups of None \<Rightarrow> 0 | Some g \<Rightarrow> fst (snd g))"

definition status_amount :: "(string \<times> nat \<times> rat) list \<Rightarrow> string \<Rightarrow> rat" where
  "status_amount groups st =
     (case find (\<lambda>g. fst g = st) groups of None \<Rightarrow> 0 | Some g \<Rightarrow> snd (snd g))"

record trend_entry =
  period :: string
  revenue :: rat
  count :: nat

record analytics =
  totalRevenue :: rat
  pendingPayments :: nat
  pendingAmount :: rat
  completedPayments :: nat
  completedAmount :: rat
  failedPayments :: nat
  failedAmount :: rat
  refundedPayments :: nat
  refundedAmount :: rat
  revenueTrend :: "trend_entry list"

text \<open>The bucket format and the start of the window for a period.\<close>

definition groupByFormat :: "string \<Rightarrow> string" where
  "groupByFormat per =
     (if per = ''daily'' then ''%Y-%m-%d''
      else if per = ''weekly'' then ''%Y-W%V''
      else ''%Y-%m'')"

definition dateRange :: "env \<Rightarrow> string \<Rightarrow> int" where
  "dateRange e per =
     (if per = ''daily'' then now e - 7 * 24 * 60 * 60 * 1000
      else if per = ''weekly'' then now e - 12 * 7 * 24 * 60 * 60 * 1000
      else now e - 12 * 30 * 24 * 60 * 60 * 1000)"

definition getPaymentAnalytics :: "env \<Rightarrow> payment list \<Rightarrow> query \<Rightarrow> analytics response" where
  "getPaymentAnalytics e coll q =
     (let per = str_param q ''period'' ''monthly'';
          totalRevenueResult =
            aggregate_group (\<lambda>p. ()) (filter (\<lambda>p. status p = ''paid'') coll);
          total = (case totalRevenueResult of [] \<Rightarrow> 0 | g # gs \<Rightarrow> snd (snd g));
          statusCounts = aggregate_group status coll;
          trend =
            sort_key fst
              (aggregate_group (\<lambda>p. dateToString (groupByFormat per) (createdAt p))
                 (filter (\<lambda>p. status p = ''paid'' \<and> dateRange e per \<le> createdAt p) coll))
      in Inr (200,
           \<lparr> totalRevenue = total,
             pendingPayments = status_count statusCounts ''pending'',
             pendingAmount = status_amount statusCounts ''pending'',
             completedPayments = status_count statusCounts ''paid'',
             completedAmount = status_amount statusCounts ''paid'',
             failedPayments = status_count statusCounts ''failed'',
             failedAmount = status_amount statusCounts ''failed'',
             refundedPayments = status_count statusCounts ''refunded'',
             refundedAmount = status_amount statusCounts ''refunded'',
             revenueTrend =
               map (\<lambda>item. \<lparr> period = fst item, revenue = snd (snd item),
                              count = fst (snd item) \<rparr>) trend \<rparr>))"

section \<open>Product controller\<close>

text \<open>
  A request: the identifier of the authenticated account (\<open>req.user?._id\<close>, as text),
  the \<open>:id\<close> parameter, the body and the uploaded files.
\<close>

record request =
  user :: "string option"
  params_id :: string
  body :: body
  files :: "string list option"

definition seven_days :: int where
  "seven_days = 7 * 24 * 60 * 60 * 1000"

definition to_image :: "uploaded \<Rightarrow> image" where
  "to_image img = \<lparr> public_id = uploaded_public_id img, url = secure_url img \<rparr>"

subsection \<open>createProduct\<close>


subsection \<open>updateProduct\<close>

text \<open>The assignments to the loaded document, in the order of the handler.\<close>

definition update_basic_fields :: "body \<Rightarrow> product \<Rightarrow> product" where
  "update_basic_fields b product =
     (let p1 = (if b ''name'' \<noteq> Undefined then product\<lparr>name := b ''name''\<rparr> else product);
          p2 = (if b ''description'' \<noteq> Undefined then p1\<lparr>description := b ''description''\<rparr>
                else p1);
          p3 = (if b ''price'' \<noteq> Undefined then p2\<lparr>price := parseFloat (b ''price'')\<rparr> else p2);
          p4 = (if b ''category'' \<noteq> Undefined then p3\<lparr>category := b ''category''\<rparr> else p3);
          p5 = (if b ''stock'' \<noteq> Undefined then p4\<lparr>stock := parseInt (b ''stock'')\<rparr> else p4)
      in if truthy (b ''is_featured'') then p5\<lparr>is_featured := b ''is_featured''\<rparr> else p5)"

definition update_flash_sale :: "env \<Rightarrow> body \<Rightarrow> product \<Rightarrow> product" where
  "update_flash_sale e b product =
     (if b ''is_flash_sale'' \<noteq> Undefined
      then (if b ''is_flash_sale'' = JStr ''true''
            then (let p1 = product\<lparr>is_flash_sale := Some True\<rparr> in
                  if truthy (b ''flash_sale_price'')
                     \<and> js_lt (parseFloat (b ''flash_sale_price'')) (price p1)
                  then p1\<lparr> flash_sale_price := Some (parseFloat (b ''flash_sale_price'')),
                          flash_sale_start := Some (now e),
                          flash_sale_end := Some (now e + seven_days) \<rparr>
                  else p1)
            else product\<lparr> is_flash_sale := Some False,
                          flash_sale_price := None,
                          flash_sale_start := None,
                          flash_sale_end := None \<rparr>)
      else product)"

text \<open>\<open>product.save()\<close>: the document replaces the stored one of the same identifier.\<close>

fun save_product :: "product \<Rightarrow> product list \<Rightarrow> product list" where
  "save_product product [] = []"
| "save_product product (p # ps) =
     (if doc_id p = doc_id product then product # ps else p # save_product product ps)"

definition updateProduct :: "env \<Rightarrow> product list \<Rightarrow> request \<Rightarrow> product response \<times> product list" where
  "updateProduct e coll req =
     (if \<not> isValidObjectId e (params_id req)
      then (Inl (CustomError 400 ''Invalid product ID''), coll)
      else
        (case user req of
           None \<Rightarrow> (Inl (CustomError 401 ''Unauthorized''), coll)
         | Some ownerId \<Rightarrow>
             (case find (\<lambda>p. doc_id p = params_id req) coll of
                None \<Rightarrow> (Inl (CustomError 404 ''Product not found''), coll)
              | Some product \<Rightarrow>
                  if owner product \<noteq> ownerId
                  then (Inl (CustomError 403 ''Forbidden: You do not own this product''), coll)
                  else
                    (let b = body req;
                         p1 = update_flash_sale e b (update_basic_fields b product);
                         kept = (if truthy (b ''existingImages'')
                                 then (case JSON_parse_images e (b ''existingImages'') of
                                         Some imgs \<Rightarrow> imgs | None \<Rightarrow> [])
                                 else []);
                         fs = (case files req of None \<Rightarrow> [] | Some fs \<Rightarrow> fs);
                         ups = (if fs \<noteq> [] then uploadMultipleOnCloudinary e fs else Some [])
                     in if fs \<noteq> [] \<and> (ups = None \<or> ups = Some [])
                        then (Inl (CustomError 500 ''Failed to upload new images''), coll)
                        else
                          (let finalImages =
                                 kept @ map to_image (case ups of None \<Rightarrow> [] | Some us \<Rightarrow> us);
                               p2 = (if finalImages \<noteq> [] then p1\<lparr>images := finalImages\<rparr>
                                     else p1)
                           in (Inr (200, p2), save_product p2 coll))))))"

subsection \<open>deleteProduct\<close>

text \<open>
  Returns the response, the collection, and the public identifiers of the images it had
  the image host remove.
\<close>

definition deleteProduct ::
    "env \<Rightarrow> product list \<Rightarrow> request \<Rightarrow> unit response \<times> product list \<times> string list" where
  "deleteProduct e coll req =
     (if \<not> isValidObjectId e (params_id req)
      then (Inl (CustomError 400 ''Invalid product ID''), coll, [])
      else
        (case user req of
           None \<Rightarrow> (Inl (CustomError 401 ''Unauthorized''), coll, [])
         | Some ownerId \<Rightarrow>
             (case find (\<lambda>p. doc_id p = params_id req) coll of
                None \<Rightarrow> (Inl (CustomError 404 ''Product not found''), coll, [])
              | Some product \<Rightarrow>
                  if owner product \<noteq> ownerId
                  then (Inl (CustomError 403 ''Forbidden: You do not own this product''), coll, [])
                  else
                    (let publicIds = map public_id (images product) in
                     if images product \<noteq> [] \<and> \<not> removeMultipleFromCloudinary e publicIds
                     then (Inl Thrown, coll, [])
                     else (Inr (200, ()),
                           filter (\<lambda>p. doc_id p \<noteq> params_id req) coll,
                           (if images product \<noteq> [] then publicIds else []))))))"

subsection \<open>getAllProducts\<close>









section \<open>Example data\<close>

text \<open>
  A concrete environment and concrete documents and requests, on which the handlers
  are evaluated below. The example store orders payments by \<open>createdAt\<close>, keeps products
  in stored order, and matches a pattern without special characters as a substring.
  The clock stands at 2025-01-02T00:00:00Z, the server is on UTC, and the store throws
  on a skip or limit that is \<open>NaN\<close>.
\<close>

definition example_env :: env where
  "example_env =
     \<lparr> now = 1735776000000,
       tz = 0,
       date_fallback = (\<lambda>s. InvalidDate),
       sort_payments = (\<lambda>field direction ps.
          if direction < 0 then rev (sort_key createdAt ps) else sort_key createdAt ps),
       sort_products = (\<lambda>field direction ps. ps),
       regex_i = (\<lambda>pat s. str_includes (toLowerCase s) (toLowerCase pat)),
       isValidObjectId = (\<lambda>s. length s = 24 \<and> list_all (\<lambda>c. hex_val c \<noteq> None) s),
       new_ObjectId = ''65a4f0000000000000000002'',
       uploadMultipleOnCloudinary = (\<lambda>fs.
          Some (map (\<lambda>f. \<lparr> uploaded_public_id = f, secure_url = ''https://img/'' @ f \<rparr>) fs)),
       removeMultipleFromCloudinary = (\<lambda>ids. True),
       JSON_parse_images = (\<lambda>v. None),
       nan_directive = None \<rparr>"


text \<open>A featured product of price 100 on flash sale at 80, owned by account \<open>...aa\<close>.\<close>

definition example_product :: product where
  "example_product =
     \<lparr> doc_id = ''65a4f0000000000000000001'',
       name = JStr ''Lamp'',
       description = JStr ''Desk lamp'',
       price = Fin 100,
       category = JStr ''home'',
       stock = Fin 5,
       images = [\<lparr> public_id = ''products/lamp'', url = ''https://img/lamp'' \<rparr>],
       owner = ''65a4f00000000000000000aa'',
       is_featured = JBool True,
       is_flash_sale = Some True,
       flash_sale_price = Some (Fin 80),
       flash_sale_start = Some 1735000000000,
       flash_sale_end = Some 1735604800000 \<rparr>"

text \<open>A request on that product by the given account, with the given body and no files.\<close>

definition example_request :: "string \<Rightarrow> body \<Rightarrow> request" where
  "example_request account b =
     \<lparr> user = Some account, params_id = ''65a4f0000000000000000001'', body = b, files = None \<rparr>"


definition unfeature :: body where
  "unfeature = (\<lambda>k. Undefined)(''is_featured'' := JBool False)"


text \<open>
  Three payments: Alice's, paid, 10, created 2024-12-30T12:00:00Z; Bob's, paid, 20,
  created 2025-01-01T12:00:00Z; one pending, 5, with no order, created
  2025-01-01T14:00:00Z.
\<close>

definition alice_payment :: payment where
  "alice_payment =
     \<lparr> intentId = Some ''pi_A1'', totalAmount = 10, status = ''paid'',
       order = Some \<lparr> order_id = ObjectId [6,5,10,4,15,0,0,0,0,0,0,0,0,0,0,0,0,0,0,0,0,0,1,1],
                      customer = Some \<lparr> customer.name = Some ''Alice'',
                                        email = Some ''alice@example.com'' \<rparr> \<rparr>,
       createdAt = 1735560000000 \<rparr>"

definition bob_payment :: payment where
  "bob_payment =
     \<lparr> intentId = Some ''pi_B2'', totalAmount = 20, status = ''paid'',
       order = Some \<lparr> order_id = ObjectId [6,5,10,4,15,0,0,0,0,0,0,0,0,0,0,0,0,0,0,0,0,0,1,2],
                      customer = Some \<lparr> customer.name = Some ''Bob'',
                                        email = Some ''bob@example.com'' \<rparr> \<rparr>,
       createdAt = 1735732800000 \<rparr>"

definition pending_payment :: payment where
  "pending_payment =
     \<lparr> intentId = Some ''pi_C3'', totalAmount = 5, status = ''pending'',
       order = None,
       createdAt = 1735740000000 \<rparr>"

definition example_payments :: "payment list" where
  "example_payments = [alice_payment, bob_payment, pending_payment]"

definition no_params :: query where
  "no_params = (\<lambda>k. None)"



definition search_alice_limit_1 :: query where
  "search_alice_limit_1 = (\<lambda>k. None)(''search'' := Some ''ALICE'', ''limit'' := Some ''1'')"

definition period_weekly :: query where
  "period_weekly = (\<lambda>k. None)(''period'' := Some ''weekly'')"

text \<open>
  A server five hours west of UTC, two payments created at 23:59:59 on 2024-01-15 (the
  first in UTC, the second in the server's local time), and a request for the payments
  up to that day.
\<close>

definition env_utc_minus_5 :: env where
  "env_utc_minus_5 = example_env\<lparr> tz := - 5 * 60 * 60 * 1000 \<rparr>"

definition late_payments :: "payment list" where
  "late_payments =
     [\<lparr> intentId = Some ''pi_D4'', totalAmount = 7, status = ''paid'', order = None,
         createdAt = 1705363199000 \<rparr>,
      \<lparr> intentId = Some ''pi_E5'', totalAmount = 8, status = ''paid'', order = None,
         createdAt = 1705381199000 \<rparr>]"

definition endDate_2024_01_15 :: query where
  "endDate_2024_01_15 = (\<lambda>k. None)(''endDate'' := Some ''2024-01-15'')"

text \<open>
  The example engine prints a whole number in decimal digits. A stored settings document
  that differs from the defaults, and three payloads: a site name with white space around
  it and nothing else; a maintenance flag \<open>false\<close> with an empty currency and a mixed-case
  e-mail; a site name together with a currency outside the enumeration.
\<close>

definition example_number_toString :: "rat \<Rightarrow> string" where
  "example_number_toString r =
     (if r < 0 then ''-'' else [])
     @ pad_digits (max 1 (floorlog 10 (nat \<lfloor>\<bar>r\<bar>\<rfloor>))) (nat \<lfloor>\<bar>r\<bar>\<rfloor>)"

definition stored_settings :: settings where
  "stored_settings =
     settings_defaults\<lparr> siteDescription := Some ''Outlet'', currency := Some EUR,
                        maintenanceMode := Some True \<rparr>"

definition only_siteName :: json_body where
  "only_siteName = (\<lambda>k. JUndefined)(''siteName'' := JString '' X '')"

definition maintenance_off :: json_body where
  "maintenance_off =
     (\<lambda>k. JUndefined)(''maintenanceMode'' := JBoolean False, ''currency'' := JString [],
                      ''contactEmail'' := JString ''Admin@Shop.COM'')"

definition currency_XYZ :: json_body where
  "currency_XYZ = (\<lambda>k. JUndefined)(''siteName'' := JString ''X'', ''currency'' := JString ''XYZ'')"


definition search_alice_limit_0 :: query where
  "search_alice_limit_0 = (\<lambda>k. None)(''search'' := Some ''ALICE'', ''limit'' := Some ''0'')"

definition search_65A4F :: query where
  "search_65A4F = (\<lambda>k. None)(''search'' := Some ''65A4F'')"

section \<open>The claims' own terms\<close>

text \<open>
  The count and the summed amount of the payments of one status, and a case-insensitive
  substring, as the specification words them.
\<close>

definition status_count_spec :: "string \<Rightarrow> payment list \<Rightarrow> nat" where
  "status_count_spec st coll = length (filter (\<lambda>p. status p = st) coll)"

definition status_amount_spec :: "string \<Rightarrow> payment list \<Rightarrow> rat" where
  "status_amount_spec st coll = sum_list (map totalAmount (filter (\<lambda>p. status p = st) coll))"

definition ci_substring :: "string \<Rightarrow> string \<Rightarrow> bool" where
  "ci_substring needle hay = (\<exists>pre suf. toLowerCase hay = pre @ toLowerCase needle @ suf)"

text \<open>
  The texts of a payment that the search looks into: the customer's name, the
  customer's e-mail, the intent identifier and the order identifier, each empty when
  missing.
\<close>

definition searched_texts :: "payment \<Rightarrow> string list" where
  "searched_texts p =
     [case order p of
        None \<Rightarrow> []
      | Some ord \<Rightarrow> (case customer ord of
                      None \<Rightarrow> []
                    | Some c \<Rightarrow> (case customer.name c of None \<Rightarrow> [] | Some n \<Rightarrow> n)),
      case order p of
        None \<Rightarrow> []
      | Some ord \<Rightarrow> (case customer ord of
                      None \<Rightarrow> []
                    | Some c \<Rightarrow> (case email c of None \<Rightarrow> [] | Some m \<Rightarrow> m)),
      case intentId p of None \<Rightarrow> [] | Some i \<Rightarrow> i,
      case order p of None \<Rightarrow> [] | Some ord \<Rightarrow> oid_toString (order_id ord)]"


text \<open>
  A settings payload the schema accepts: no value that the handler assigns is refused.
\<close>

definition schema_accepts :: "(rat \<Rightarrow> string) \<Rightarrow> json_body \<Rightarrow> bool" where
  "schema_accepts number_toString b =
     ((json_truthy (b ''siteName'') \<longrightarrow> schema_siteName number_toString (b ''siteName'') \<noteq> Refused) \<and>
      (json_truthy (b ''siteDescription'')
         \<longrightarrow> schema_siteDescription number_toString (b ''siteDescription'') \<noteq> Refused) \<and>
      (json_truthy (b ''contactEmail'')
         \<longrightarrow> schema_contactEmail number_toString (b ''contactEmail'') \<noteq> Refused) \<and>
      (json_truthy (b ''contactPhone'')
         \<longrightarrow> schema_contactPhone number_toString (b ''contactPhone'') \<noteq> Refused) \<and>
      (json_truthy (b ''currency'') \<longrightarrow> schema_currency number_toString (b ''currency'') \<noteq> Refused) \<and>
      (json_truthy (b ''timezone'') \<longrightarrow> schema_timezone number_toString (b ''timezone'') \<noteq> Refused) \<and>
      (b ''maintenanceMode'' \<noteq> JUndefined
         \<longrightarrow> schema_maintenanceMode (b ''maintenanceMode'') \<noteq> Refused))"

section \<open>Properties of the settings update\<close>

text \<open>One guarded assignment of the handler, path by path.\<close>

lemma refused_step:
  "refused (if c then assign a put d else d) = (refused d \<or> (c \<and> a = Refused))"
  by (cases a) (simp_all add: assign_def)

lemma step_siteName:
  "siteName (paths (if c then assign a (\<lambda>v s. s\<lparr>siteName := v\<rparr>) d else d)) =
     (if c then (case a of Value v \<Rightarrow> v | Refused \<Rightarrow> siteName (paths d)) else siteName (paths d))"
  "siteDescription (paths (if c then assign a (\<lambda>v s. s\<lparr>siteName := v\<rparr>) d else d)) =
     siteDescription (paths d)"
  "contactEmail (paths (if c then assign a (\<lambda>v s. s\<lparr>siteName := v\<rparr>) d else d)) =
     contactEmail (paths d)"
  "contactPhone (paths (if c then assign a (\<lambda>v s. s\<lparr>siteName := v\<rparr>) d else d)) =
     contactPhone (paths d)"
  "currency (paths (if c then assign a (\<lambda>v s. s\<lparr>siteName := v\<rparr>) d else d)) =
     currency (paths d)"
  "timezone (paths (if c then assign a (\<lambda>v s. s\<lparr>siteName := v\<rparr>) d else d)) =
     timezone (paths d)"
  "maintenanceMode (paths (if c then assign a (\<lambda>v s. s\<lparr>siteName := v\<rparr>) d else d)) =
     maintenanceMode (paths d)"
  by (cases a; simp add: assign_def)+

lemma step_siteDescription:
  "siteName (paths (if c then assign a (\<lambda>v s. s\<lparr>siteDescription := v\<rparr>) d else d)) =
     siteName (paths d)"
  "siteDescription (paths (if c then assign a (\<lambda>v s. s\<lparr>siteDescription := v\<rparr>) d else d)) =
     (if c then (case a of Value v \<Rightarrow> v | Refused \<Rightarrow> siteDescription (paths d))
      else siteDescription (paths d))"
  "contactEmail (paths (if c then assign a (\<lambda>v s. s\<lparr>siteDescription := v\<rparr>) d else d)) =
     contactEmail (paths d)"
  "contactPhone (paths (if c then assign a (\<lambda>v s. s\<lparr>siteDescription := v\<rparr>) d else d)) =
     contactPhone (paths d)"
  "currency (paths (if c then assign a (\<lambda>v s. s\<lparr>siteDescription := v\<rparr>) d else d)) =
     currency (paths d)"
  "timezone (paths (if c then assign a (\<lambda>v s. s\<lparr>siteDescription := v\<rparr>) d else d)) =
     timezone (paths d)"
  "maintenanceMode (paths (if c then assign a (\<lambda>v s. s\<lparr>siteDescription := v\<rparr>) d else d)) =
     maintenanceMode (paths d)"
  by (cases a; simp add: assign_def)+

lemma step_contactEmail:
  "siteName (paths (if c then assign a (\<lambda>v s. s\<lparr>contactEmail := v\<rparr>) d else d)) =
     siteName (paths d)"
  "siteDescription (paths (if c then assign a (\<lambda>v s. s\<lparr>contactEmail := v\<rparr>) d else d)) =
     siteDescription (paths d)"
  "contactEmail (paths (if c then assign a (\<lambda>v s. s\<lparr>contactEmail := v\<rparr>) d else d)) =
     (if c then (case a of Value v \<Rightarrow> v | Refused \<Rightarrow> contactEmail (paths d))
      else contactEmail (paths d))"
  "contactPhone (paths (if c then assign a (\<lambda>v s. s\<lparr>contactEmail := v\<rparr>) d else d)) =
     contactPhone (paths d)"
  "currency (paths (if c then assign a (\<lambda>v s. s\<lparr>contactEmail := v\<rparr>) d else d)) =
     currency (paths d)"
  "timezone (paths (if c then assign a (\<lambda>v s. s\<lparr>contactEmail := v\<rparr>) d else d)) =
     timezone (paths d)"
  "maintenanceMode (paths (if c then assign a (\<lambda>v s. s\<lparr>contactEmail := v\<rparr>) d else d)) =
     maintenanceMode (paths d)"
  by (cases a; simp add: assign_def)+

lemma step_contactPhone:
  "siteName (paths (if c then assign a (\<lambda>v s. s\<lparr>contactPhone := v\<rparr>) d else d)) =
     siteName (paths d)"
  "siteDescription (paths (if c then assign a (\<lambda>v s. s\<lparr>contactPhone := v\<rparr>) d else d)) =
     siteDescription (paths d)"
  "contactEmail (paths (if c then assign a (\<lambda>v s. s\<lparr>contactPhone := v\<rparr>) d else d)) =
     contactEmail (paths d)"
  "contactPhone (paths (if c then assign a (\<lambda>v s. s\<lparr>contactPhone := v\<rparr>) d else d)) =
     (if c then (case a of Value v \<Rightarrow> v | Refused \<Rightarrow> contactPhone (paths d))
      else contactPhone (paths d))"
  "currency (paths (if c then assign a (\<lambda>v s. s\<lparr>contactPhone := v\<rparr>) d else d)) =
     currency (paths d)"
  "timezone (paths (if c then assign a (\<lambda>v s. s\<lparr>contactPhone := v\<rparr>) d else d)) =
     timezone (paths d)"
  "maintenanceMode (paths (if c then assign a (\<lambda>v s. s\<lparr>contactPhone := v\<rparr>) d else d)) =
     maintenanceMode (paths d)"
  by (cases a; simp add: assign_def)+

lemma step_currency:
  "siteName (paths (if c then assign a (\<lambda>v s. s\<lparr>currency := v\<rparr>) d else d)) =
     siteName (paths d)"
  "siteDescription (paths (if c then assign a (\<lambda>v s. s\<lparr>currency := v\<rparr>) d else d)) =
     siteDescription (paths d)"
  "contactEmail (paths (if c then assign a (\<lambda>v s. s\<lparr>currency := v\<rparr>) d else d)) =
     contactEmail (paths d)"
  "contactPhone (paths (if c then assign a (\<lambda>v s. s\<lparr>currency := v\<rparr>) d else d)) =
     contactPhone (paths d)"
  "currency (paths (if c then assign a (\<lambda>v s. s\<lparr>currency := v\<rparr>) d else d)) =
     (if c then (case a of Value v \<Rightarrow> v | Refused \<Rightarrow> currency (paths d)) else currency (paths d))"
  "timezone (paths (if c then assign a (\<lambda>v s. s\<lparr>currency := v\<rparr>) d else d)) =
     timezone (paths d)"
  "maintenanceMode (paths (if c then assign a (\<lambda>v s. s\<lparr>currency := v\<rparr>) d else d)) =
     maintenanceMode (paths d)"
  by (cases a; simp add: assign_def)+

lemma step_timezone:
  "siteName (paths (if c then assign a (\<lambda>v s. s\<lparr>timezone := v\<rparr>) d else d)) =
     siteName (paths d)"
  "siteDescription (paths (if c then assign a (\<lambda>v s. s\<lparr>timezone := v\<rparr>) d else d)) =
     siteDescription (paths d)"
  "contactEmail (paths (if c then assign a (\<lambda>v s. s\<lparr>timezone := v\<rparr>) d else d)) =
     contactEmail (paths d)"
  "contactPhone (paths (if c then assign a (\<lambda>v s. s\<lparr>timezone := v\<rparr>) d else d)) =
     contactPhone (paths d)"
  "currency (paths (if c then assign a (\<lambda>v s. s\<lparr>timezone := v\<rparr>) d else d)) =
     currency (paths d)"
  "timezone (paths (if c then assign a (\<lambda>v s. s\<lparr>timezone := v\<rparr>) d else d)) =
     (if c then (case a of Value v \<Rightarrow> v | Refused \<Rightarrow> timezone (paths d)) else timezone (paths d))"
  "maintenanceMode (paths (if c then assign a (\<lambda>v s. s\<lparr>timezone := v\<rparr>) d else d)) =
     maintenanceMode (paths d)"
  by (cases a; simp add: assign_def)+

lemma step_maintenanceMode:
  "siteName (paths (if c then assign a (\<lambda>v s. s\<lparr>maintenanceMode := v\<rparr>) d else d)) =
     siteName (paths d)"
  "siteDescription (paths (if c then assign a (\<lambda>v s. s\<lparr>maintenanceMode := v\<rparr>) d else d)) =
     siteDescription (paths d)"
  "contactEmail (paths (if c then assign a (\<lambda>v s. s\<lparr>maintenanceMode := v\<rparr>) d else d)) =
     contactEmail (paths d)"
  "contactPhone (paths (if c then assign a (\<lambda>v s. s\<lparr>maintenanceMode := v\<rparr>) d else d)) =
     contactPhone (paths d)"
  "currency (paths (if c then assign a (\<lambda>v s. s\<lparr>maintenanceMode := v\<rparr>) d else d)) =
     currency (paths d)"
  "timezone (paths (if c then assign a (\<lambda>v s. s\<lparr>maintenanceMode := v\<rparr>) d else d)) =
     timezone (paths d)"
  "maintenanceMode (paths (if c then assign a (\<lambda>v s. s\<lparr>maintenanceMode := v\<rparr>) d else d)) =
     (if c then (case a of Value v \<Rightarrow> v | Refused \<Rightarrow> maintenanceMode (paths d))
      else maintenanceMode (paths d))"
  by (cases a; simp add: assign_def)+

subsection \<open>Evaluation on the example data\<close>

lemma only_siteName_fields:
  "only_siteName ''siteName'' = JString '' X ''"
  "only_siteName ''siteDescription'' = JUndefined"
  "only_siteName ''contactEmail'' = JUndefined"
  "only_siteName ''contactPhone'' = JUndefined"
  "only_siteName ''currency'' = JUndefined"
  "only_siteName ''timezone'' = JUndefined"
  "only_siteName ''maintenanceMode'' = JUndefined"
  by (simp_all add: only_siteName_def)

lemma maintenance_off_fields:
  "maintenance_off ''siteName'' = JUndefined"
  "maintenance_off ''siteDescription'' = JUndefined"
  "maintenance_off ''contactEmail'' = JString ''Admin@Shop.COM''"
  "maintenance_off ''contactPhone'' = JUndefined"
  "maintenance_off ''currency'' = JString []"
  "maintenance_off ''timezone'' = JUndefined"
  "maintenance_off ''maintenanceMode'' = JBoolean False"
  by (simp_all add: maintenance_off_def)

lemma currency_XYZ_fields:
  "currency_XYZ ''siteName'' = JString ''X''"
  "currency_XYZ ''siteDescription'' = JUndefined"
  "currency_XYZ ''contactEmail'' = JUndefined"
  "currency_XYZ ''contactPhone'' = JUndefined"
  "currency_XYZ ''currency'' = JString ''XYZ''"
  "currency_XYZ ''timezone'' = JUndefined"
  "currency_XYZ ''maintenanceMode'' = JUndefined"
  by (simp_all add: currency_XYZ_def)

lemma stored_settings_fields:
  "siteName stored_settings = Some ''E-commerce Store''"
  "siteDescription stored_settings = Some ''Outlet''"
  "currency stored_settings = Some EUR"
  by (simp_all add: stored_settings_def settings_defaults_def)

lemma trim_X: "js_trim '' X '' = ''X''"
  by (simp add: js_trim_def is_ws_def)

lemma lower_trim_email: "js_trim (toLowerCase ''Admin@Shop.COM'') = ''admin@shop.com''"
  by (simp add: js_trim_def is_ws_def toLowerCase_def lower_char_def)

lemma currency_XYZ_refused: "schema_currency number_toString (JString ''XYZ'') = Refused"
  by (simp add: schema_currency_def currency_enum_def)

subsection \<open>The fields an update applies\<close>

text \<open>
  C7, as the code has it. The previous document is the stored one, or the schema defaults
  when none is stored. When the schema accepts the payload (each truthy value supplied
  for \<open>siteName\<close>, \<open>siteDescription\<close>, \<open>contactEmail\<close>, \<open>contactPhone\<close>, \<open>currency\<close>,
  \<open>timezone\<close> and a supplied \<open>maintenanceMode\<close> pass the cast of their path, and a supplied
  currency is one of the enumeration), \<open>updateSettings\<close> answers 200 with the document it
  stored: each of the six text fields holds the payload's value as the schema casts it
  (trimmed, the e-mail also lower-cased) when that value is truthy and its previous value
  otherwise (absent or falsy), and \<open>maintenanceMode\<close> holds the payload's value as a
  boolean whenever the key is present, \<open>false\<close> included. When the schema does not accept
  the payload, the handler ends with the error of \<open>save\<close> and the previous document stays
  stored: no field of the payload is applied. A payload that carries only a truthy
  \<open>siteName\<close> that the schema accepts changes \<open>siteName\<close> and nothing else.
\<close>

theorem updateSettings_applies_accepted_fields:
  "let old = (case coll of Some s \<Rightarrow> s | None \<Rightarrow> settings_defaults) in
   (schema_accepts number_toString b \<longrightarrow>
      (\<exists>new. updateSettings number_toString coll b = (Inr (200, new), Some new) \<and>
         (if json_truthy (b ''siteName'')
           then Value (siteName new) =
                  schema_siteName number_toString (b ''siteName'')
           else siteName new = siteName old) \<and>
         (if json_truthy (b ''siteDescription'')
           then Value (siteDescription new) =
                  schema_siteDescription number_toString (b ''siteDescription'')
           else siteDescription new = siteDescription old) \<and>
         (if json_truthy (b ''contactEmail'')
           then Value (contactEmail new) =
                  schema_contactEmail number_toString (b ''contactEmail'')
           else contactEmail new = contactEmail old) \<and>
         (if json_truthy (b ''contactPhone'')
           then Value (contactPhone new) =
                  schema_contactPhone number_toString (b ''contactPhone'')
           else contactPhone new = contactPhone old) \<and>
         (if json_truthy (b ''currency'')
           then Value (currency new) =
                  schema_currency number_toString (b ''currency'')
           else currency new = currency old) \<and>
         (if json_truthy (b ''timezone'')
           then Value (timezone new) =
                  schema_timezone number_toString (b ''timezone'')
           else timezone new = timezone old) \<and>
         (if b ''maintenanceMode'' \<noteq> JUndefined
           then Value (maintenanceMode new) =
                  schema_maintenanceMode (b ''maintenanceMode'')
           else maintenanceMode new = maintenanceMode old))) \<and>
   (\<not> schema_accepts number_toString b \<longrightarrow>
      updateSettings number_toString coll b = (Inl Thrown, Some old)) \<and>
   (\<forall>t. json_truthy (b ''siteName'')
          \<and> schema_siteName number_toString (b ''siteName'') = Value t
          \<and> (\<forall>k. k \<noteq> ''siteName'' \<longrightarrow> b k = JUndefined)
      \<longrightarrow> updateSettings number_toString coll b =
            (Inr (200, old\<lparr>siteName := t\<rparr>), Some (old\<lparr>siteName := t\<rparr>)))"
proof -
  define old where "old = (case coll of Some s \<Rightarrow> s | None \<Rightarrow> settings_defaults)"
  have g: "getSettings_static coll = (old, Some old)"
    by (simp add: getSettings_static_def old_def split: option.splits)
  let ?c1 = "json_truthy (b ''siteName'')"
  let ?a1 = "schema_siteName number_toString (b ''siteName'')"
  let ?c2 = "json_truthy (b ''siteDescription'')"
  let ?a2 = "schema_siteDescription number_toString (b ''siteDescription'')"
  let ?c3 = "json_truthy (b ''contactEmail'')"
  let ?a3 = "schema_contactEmail number_toString (b ''contactEmail'')"
  let ?c4 = "json_truthy (b ''contactPhone'')"
  let ?a4 = "schema_contactPhone number_toString (b ''contactPhone'')"
  let ?c5 = "json_truthy (b ''currency'')"
  let ?a5 = "schema_currency number_toString (b ''currency'')"
  let ?c6 = "json_truthy (b ''timezone'')"
  let ?a6 = "schema_timezone number_toString (b ''timezone'')"
  let ?c7 = "b ''maintenanceMode'' \<noteq> JUndefined"
  let ?a7 = "schema_maintenanceMode (b ''maintenanceMode'')"
  define d0 where "d0 = \<lparr> paths = old, refused = False \<rparr>"
  define d1 where
    "d1 = (if ?c1 then assign ?a1 (\<lambda>v s. s\<lparr>siteName := v\<rparr>) d0 else d0)"
  define d2 where
    "d2 = (if ?c2 then assign ?a2 (\<lambda>v s. s\<lparr>siteDescription := v\<rparr>) d1 else d1)"
  define d3 where
    "d3 = (if ?c3 then assign ?a3 (\<lambda>v s. s\<lparr>contactEmail := v\<rparr>) d2 else d2)"
  define d4 where
    "d4 = (if ?c4 then assign ?a4 (\<lambda>v s. s\<lparr>contactPhone := v\<rparr>) d3 else d3)"
  define d5 where
    "d5 = (if ?c5 then assign ?a5 (\<lambda>v s. s\<lparr>currency := v\<rparr>) d4 else d4)"
  define d6 where
    "d6 = (if ?c6 then assign ?a6 (\<lambda>v s. s\<lparr>timezone := v\<rparr>) d5 else d5)"
  define d7 where
    "d7 = (if ?c7 then assign ?a7 (\<lambda>v s. s\<lparr>maintenanceMode := v\<rparr>) d6 else d6)"
  note ds = d7_def d6_def d5_def d4_def d3_def d2_def d1_def
  note steps = step_siteName step_siteDescription step_contactEmail step_contactPhone
    step_currency step_timezone step_maintenanceMode
  have p0: "paths d0 = old"
    by (simp add: d0_def)
  have u: "updateSettings number_toString coll b =
      (case save d7 of
         None \<Rightarrow> (Inl Thrown, Some old)
       | Some saved \<Rightarrow> (Inr (200, saved), Some saved))"
    unfolding updateSettings_def g ds d0_def
    by (simp only: Let_def prod.case)
  have r: "refused d7 = (\<not> schema_accepts number_toString b)"
    unfolding ds refused_step schema_accepts_def
    by (simp add: d0_def)
  have f1: "siteName (paths d7) =
      (if ?c1 then (case ?a1 of Value v \<Rightarrow> v | Refused \<Rightarrow> siteName old) else siteName old)"
    unfolding ds steps p0 by simp
  have f2: "siteDescription (paths d7) =
      (if ?c2 then (case ?a2 of Value v \<Rightarrow> v | Refused \<Rightarrow> siteDescription old)
       else siteDescription old)"
    unfolding ds steps p0 by simp
  have f3: "contactEmail (paths d7) =
      (if ?c3 then (case ?a3 of Value v \<Rightarrow> v | Refused \<Rightarrow> contactEmail old) else contactEmail old)"
    unfolding ds steps p0 by simp
  have f4: "contactPhone (paths d7) =
      (if ?c4 then (case ?a4 of Value v \<Rightarrow> v | Refused \<Rightarrow> contactPhone old) else contactPhone old)"
    unfolding ds steps p0 by simp
  have f5: "currency (paths d7) =
      (if ?c5 then (case ?a5 of Value v \<Rightarrow> v | Refused \<Rightarrow> currency old) else currency old)"
    unfolding ds steps p0 by simp
  have f6: "timezone (paths d7) =
      (if ?c6 then (case ?a6 of Value v \<Rightarrow> v | Refused \<Rightarrow> timezone old) else timezone old)"
    unfolding ds steps p0 by simp
  have f7: "maintenanceMode (paths d7) =
      (if ?c7 then (case ?a7 of Value v \<Rightarrow> v | Refused \<Rightarrow> maintenanceMode old)
       else maintenanceMode old)"
    unfolding ds steps p0 by simp
  have acc: "updateSettings number_toString coll b = (Inr (200, paths d7), Some (paths d7))"
    if "schema_accepts number_toString b"
    using that r by (simp add: u save_def)
  have rej: "updateSettings number_toString coll b = (Inl Thrown, Some old)"
    if "\<not> schema_accepts number_toString b"
    using that r by (simp add: u save_def)
  have one: "(if json_truthy (b ''siteName'')
           then Value (siteName (paths d7)) =
                  schema_siteName number_toString (b ''siteName'')
           else siteName (paths d7) = siteName old) \<and>
         (if json_truthy (b ''siteDescription'')
           then Value (siteDescription (paths d7)) =
                  schema_siteDescription number_toString (b ''siteDescription'')
           else siteDescription (paths d7) = siteDescription old) \<and>
         (if json_truthy (b ''contactEmail'')
           then Value (contactEmail (paths d7)) =
                  schema_contactEmail number_toString (b ''contactEmail'')
           else contactEmail (paths d7) = contactEmail old) \<and>
         (if json_truthy (b ''contactPhone'')
           then Value (contactPhone (paths d7)) =
                  schema_contactPhone number_toString (b ''contactPhone'')
           else contactPhone (paths d7) = contactPhone old) \<and>
         (if json_truthy (b ''currency'')
           then Value (currency (paths d7)) =
                  schema_currency number_toString (b ''currency'')
           else currency (paths d7) = currency old) \<and>
         (if json_truthy (b ''timezone'')
           then Value (timezone (paths d7)) =
                  schema_timezone number_toString (b ''timezone'')
           else timezone (paths d7) = timezone old) \<and>
         (if b ''maintenanceMode'' \<noteq> JUndefined
           then Value (maintenanceMode (paths d7)) =
                  schema_maintenanceMode (b ''maintenanceMode'')
           else maintenanceMode (paths d7) = maintenanceMode old)"
    if a: "schema_accepts number_toString b"
  proof (intro conjI)
    show "if ?c1 then Value (siteName (paths d7)) = ?a1 else siteName (paths d7) = siteName old"
      using a by (cases ?a1) (simp_all add: f1 schema_accepts_def)
    show "if ?c2 then Value (siteDescription (paths d7)) = ?a2
          else siteDescription (paths d7) = siteDescription old"
      using a by (cases ?a2) (simp_all add: f2 schema_accepts_def)
    show "if ?c3 then Value (contactEmail (paths d7)) = ?a3
          else contactEmail (paths d7) = contactEmail old"
      using a by (cases ?a3) (simp_all add: f3 schema_accepts_def)
    show "if ?c4 then Value (contactPhone (paths d7)) = ?a4
          else contactPhone (paths d7) = contactPhone old"
      using a by (cases ?a4) (simp_all add: f4 schema_accepts_def)
    show "if ?c5 then Value (currency (paths d7)) = ?a5 else currency (paths d7) = currency old"
      using a by (cases ?a5) (simp_all add: f5 schema_accepts_def)
    show "if ?c6 then Value (timezone (paths d7)) = ?a6 else timezone (paths d7) = timezone old"
      using a by (cases ?a6) (simp_all add: f6 schema_accepts_def)
    show "if ?c7 then Value (maintenanceMode (paths d7)) = ?a7
          else maintenanceMode (paths d7) = maintenanceMode old"
      using a by (cases ?a7) (simp_all add: f7 schema_accepts_def)
  qed
  have only: "updateSettings number_toString coll b =
            (Inr (200, old\<lparr>siteName := t\<rparr>), Some (old\<lparr>siteName := t\<rparr>))"
    if t: "?c1" "?a1 = Value t"
      and o: "\<forall>k. k \<noteq> ''siteName'' \<longrightarrow> b k = JUndefined" for t
  proof -
    have n: "b ''siteDescription'' = JUndefined" "b ''contactEmail'' = JUndefined"
         "b ''contactPhone'' = JUndefined" "b ''currency'' = JUndefined"
         "b ''timezone'' = JUndefined" "b ''maintenanceMode'' = JUndefined"
      using o by simp_all
    have a: "schema_accepts number_toString b"
      using t n by (simp add: schema_accepts_def)
    have "paths d7 = old\<lparr>siteName := t\<rparr>"
      by (rule settings.equality) (simp_all add: f1 f2 f3 f4 f5 f6 f7 t n)
    with acc[OF a] show ?thesis by simp
  qed
  show ?thesis
    unfolding Let_def old_def[symmetric]
    using acc one rej only by blast
qed

theorem updateSettings_applies_accepted_fields_witness:
  "schema_accepts example_number_toString only_siteName \<and>
   updateSettings example_number_toString (Some stored_settings) only_siteName =
     (Inr (200, stored_settings\<lparr>siteName := Some ''X''\<rparr>),
      Some (stored_settings\<lparr>siteName := Some ''X''\<rparr>)) \<and>
   updateSettings example_number_toString None only_siteName =
     (Inr (200, settings_defaults\<lparr>siteName := Some ''X''\<rparr>),
      Some (settings_defaults\<lparr>siteName := Some ''X''\<rparr>)) \<and>
   schema_accepts example_number_toString maintenance_off \<and>
   (\<exists>new. updateSettings example_number_toString (Some stored_settings) maintenance_off =
            (Inr (200, new), Some new) \<and>
          maintenanceMode new = Some False \<and> currency new = Some EUR \<and>
          contactEmail new = Some ''admin@shop.com'' \<and> siteDescription new = Some ''Outlet'' \<and>
          siteName new = Some ''E-commerce Store'') \<and>
   \<not> schema_accepts example_number_toString currency_XYZ \<and>
   updateSettings example_number_toString (Some stored_settings) currency_XYZ =
     (Inl Thrown, Some stored_settings)"
proof -
  let ?n = example_number_toString
  have v: "schema_siteName ?n (only_siteName ''siteName'') = Value (Some ''X'')"
    by (simp add: only_siteName_fields schema_siteName_def String_path_def trim_X)
  have a1: "schema_accepts ?n only_siteName"
    by (simp add: schema_accepts_def only_siteName_fields v[unfolded only_siteName_fields])
  have h: "json_truthy (only_siteName ''siteName'')
        \<and> schema_siteName ?n (only_siteName ''siteName'') = Value (Some ''X'')
        \<and> (\<forall>k. k \<noteq> ''siteName'' \<longrightarrow> only_siteName k = JUndefined)"
    using v by (simp add: only_siteName_def)
  note t1 = updateSettings_applies_accepted_fields
              [of "Some stored_settings" ?n only_siteName, unfolded Let_def,
               THEN conjunct2, THEN conjunct2, THEN spec, THEN mp, OF h]
  note t2 = updateSettings_applies_accepted_fields
              [of None ?n only_siteName, unfolded Let_def,
               THEN conjunct2, THEN conjunct2, THEN spec, THEN mp, OF h]
  have a2: "schema_accepts ?n maintenance_off"
    by (simp add: schema_accepts_def maintenance_off_fields schema_contactEmail_def
          String_path_def schema_maintenanceMode_def)
  note t3 = updateSettings_applies_accepted_fields
              [of "Some stored_settings" ?n maintenance_off, unfolded Let_def,
               THEN conjunct1, THEN mp, OF a2]
  have e3: "\<exists>new. updateSettings ?n (Some stored_settings) maintenance_off =
            (Inr (200, new), Some new) \<and>
          maintenanceMode new = Some False \<and> currency new = Some EUR \<and>
          contactEmail new = Some ''admin@shop.com'' \<and> siteDescription new = Some ''Outlet'' \<and>
          siteName new = Some ''E-commerce Store''"
    using t3
    by (simp add: maintenance_off_fields schema_contactEmail_def String_path_def
          schema_maintenanceMode_def lower_trim_email stored_settings_fields) blast
  have a4: "\<not> schema_accepts ?n currency_XYZ"
    by (simp add: schema_accepts_def currency_XYZ_fields currency_XYZ_refused)
  note t4 = updateSettings_applies_accepted_fields
              [of "Some stored_settings" ?n currency_XYZ, unfolded Let_def,
               THEN conjunct2, THEN conjunct1, THEN mp, OF a4]
  from a1 t1 t2 a2 e3 a4 t4 show ?thesis
    by simp
qed

text \<open>
  The claim as worded fails on the payload \<open>{siteName: 'X', currency: 'XYZ'}\<close>: both fields
  are present and truthy, yet the currency is not of the enumeration, \<open>save\<close> rejects the
  document, and the stored settings keep their site name.
\<close>

theorem currency_XYZ_nothing_applied:
  "json_truthy (currency_XYZ ''siteName'') \<and> json_truthy (currency_XYZ ''currency'') \<and>
   updateSettings example_number_toString (Some stored_settings) currency_XYZ =
     (Inl Thrown, Some stored_settings)"
  by (simp add: updateSettings_def getSettings_static_def currency_XYZ_fields assign_def
        schema_siteName_def String_path_def trim_X currency_XYZ_refused save_def)

section \<open>Properties of the product controller\<close>

lemma find_doc_id: "find (\<lambda>p. doc_id p = i) coll = Some x \<Longrightarrow> doc_id x = i"
  by (induction coll) (auto split: if_splits)

lemma update_basic_fields_frame:
  "doc_id (update_basic_fields b p) = doc_id p"
  "owner (update_basic_fields b p) = owner p"
  "flash_sale_price (update_basic_fields b p) = flash_sale_price p"
  "flash_sale_start (update_basic_fields b p) = flash_sale_start p"
  "flash_sale_end (update_basic_fields b p) = flash_sale_end p"
  "is_flash_sale (update_basic_fields b p) = is_flash_sale p"
  "is_featured (update_basic_fields b p) =
     (if truthy (b ''is_featured'') then b ''is_featured'' else is_featured p)"
  "price (update_basic_fields b p) =
     (if b ''price'' \<noteq> Undefined then parseFloat (b ''price'') else price p)"
  by (simp_all add: update_basic_fields_def Let_def)

lemma update_flash_sale_frame:
  "doc_id (update_flash_sale e b p) = doc_id p"
  "owner (update_flash_sale e b p) = owner p"
  "is_featured (update_flash_sale e b p) = is_featured p"
  "price (update_flash_sale e b p) = price p"
  by (simp_all add: update_flash_sale_def Let_def)



text \<open>
  Every outcome of an update either leaves the collection as it was or stores a
  document with the identifier of the one that was loaded.
\<close>

lemma updateProduct_cases:
  "updateProduct e coll req = (r, coll') \<Longrightarrow>
   coll' = coll \<or>
   (\<exists>product p2. find (\<lambda>p. doc_id p = params_id req) coll = Some product \<and>
      r = Inr (200, p2) \<and> coll' = save_product p2 coll \<and> doc_id p2 = doc_id product \<and>
      is_featured p2 = is_featured (update_basic_fields (body req) product))"
  by (auto simp: updateProduct_def Let_def update_flash_sale_frame update_basic_fields_frame
           split: if_splits option.splits)

lemma save_product_map:
  "find (\<lambda>p. doc_id p = doc_id x) coll = Some y \<Longrightarrow> f x = f y \<Longrightarrow>
   map f (save_product x coll) = map f coll"
  by (induction coll) (auto split: if_splits)

subsection \<open>Evaluation on the example data\<close>



lemma example_id_valid: "isValidObjectId example_env ''65a4f0000000000000000001''"
  by (simp add: example_env_def hex_val_def)


lemma unfeature_fields:
  "unfeature ''is_featured'' = JBool False"
  "unfeature ''is_flash_sale'' = Undefined"
  "unfeature ''flash_sale_price'' = Undefined"
  "unfeature ''name'' = Undefined"
  "unfeature ''description'' = Undefined"
  "unfeature ''price'' = Undefined"
  "unfeature ''category'' = Undefined"
  "unfeature ''stock'' = Undefined"
  "unfeature ''existingImages'' = Undefined"
  by (simp_all add: unfeature_def)


lemma example_find:
  "find (\<lambda>p. doc_id p = params_id (example_request a b)) [example_product] = Some example_product"
  by (simp add: example_request_def example_product_def)

subsection \<open>Ownership\<close>

text \<open>
  C8. When an authenticated account that is not the owner of the stored product asks to
  update or to delete it, each handler answers with the error 403 \<open>Forbidden\<close>; the
  collection is returned as it was, and the delete has no image removed from the host.
\<close>

theorem not_owner_forbidden:
  assumes "isValidObjectId e (params_id req)"
    and "user req = Some account"
    and "find (\<lambda>p. doc_id p = params_id req) coll = Some product"
    and "owner product \<noteq> account"
  shows "updateProduct e coll req =
           (Inl (CustomError 403 ''Forbidden: You do not own this product''), coll) \<and>
         deleteProduct e coll req =
           (Inl (CustomError 403 ''Forbidden: You do not own this product''), coll, [])"
  using assms by (simp add: updateProduct_def deleteProduct_def)

theorem not_owner_forbidden_witness:
  "isValidObjectId example_env (params_id (example_request ''65a4f00000000000000000bb'' unfeature)) \<and>
   user (example_request ''65a4f00000000000000000bb'' unfeature) = Some ''65a4f00000000000000000bb'' \<and>
   find (\<lambda>p. doc_id p = params_id (example_request ''65a4f00000000000000000bb'' unfeature))
     [example_product] = Some example_product \<and>
   owner example_product \<noteq> ''65a4f00000000000000000bb'' \<and>
   updateProduct example_env [example_product] (example_request ''65a4f00000000000000000bb'' unfeature) =
     (Inl (CustomError 403 ''Forbidden: You do not own this product''), [example_product]) \<and>
   deleteProduct example_env [example_product] (example_request ''65a4f00000000000000000bb'' unfeature) =
     (Inl (CustomError 403 ''Forbidden: You do not own this product''), [example_product], [])"
proof -
  have v: "isValidObjectId example_env
             (params_id (example_request ''65a4f00000000000000000bb'' unfeature))"
    using example_id_valid by (simp add: example_request_def)
  have u: "user (example_request ''65a4f00000000000000000bb'' unfeature)
             = Some ''65a4f00000000000000000bb''"
    by (simp add: example_request_def)
  have o: "owner example_product \<noteq> ''65a4f00000000000000000bb''"
    by (simp add: example_product_def)
  show ?thesis
    using not_owner_forbidden[OF v u example_find o] v u example_find o by simp
qed

subsection \<open>The featured flag\<close>

text \<open>
  C10. An update whose \<open>is_featured\<close> field is absent, \<open>false\<close> or any other falsy value
  leaves the \<open>is_featured\<close> flag of every stored product as it was, whatever the outcome
  of the update; in particular \<open>is_featured = false\<close> does not un-feature a product.
\<close>

theorem is_featured_kept_when_falsy:
  assumes "\<not> truthy (body req ''is_featured'')"
  shows "map is_featured (snd (updateProduct e coll req)) = map is_featured coll"
proof -
  obtain r coll' where u: "updateProduct e coll req = (r, coll')"
    by (cases "updateProduct e coll req")
  from updateProduct_cases[OF u] show ?thesis
  proof
    assume "coll' = coll"
    with u show ?thesis by simp
  next
    assume "\<exists>product p2. find (\<lambda>p. doc_id p = params_id req) coll = Some product \<and>
      r = Inr (200, p2) \<and> coll' = save_product p2 coll \<and> doc_id p2 = doc_id product \<and>
      is_featured p2 = is_featured (update_basic_fields (body req) product)"
    then obtain product p2 where f: "find (\<lambda>p. doc_id p = params_id req) coll = Some product"
      and c: "coll' = save_product p2 coll" and d: "doc_id p2 = doc_id product"
      and i: "is_featured p2 = is_featured (update_basic_fields (body req) product)"
      by blast
    from find_doc_id[OF f] have "doc_id product = params_id req" .
    with f d have f': "find (\<lambda>p. doc_id p = doc_id p2) coll = Some product" by simp
    from i assms have "is_featured p2 = is_featured product"
      by (simp add: update_basic_fields_frame)
    from save_product_map[OF f' this] c u show ?thesis by simp
  qed
qed

theorem is_featured_kept_when_falsy_witness:
  "\<not> truthy (body (example_request ''65a4f00000000000000000aa'' unfeature) ''is_featured'') \<and>
   updateProduct example_env [example_product] (example_request ''65a4f00000000000000000aa'' unfeature)
     = (Inr (200, example_product), [example_product]) \<and>
   is_featured example_product = JBool True \<and>
   map is_featured
     (snd (updateProduct example_env [example_product]
             (example_request ''65a4f00000000000000000aa'' unfeature))) = [JBool True]"
proof -
  have f: "\<not> truthy (body (example_request ''65a4f00000000000000000aa'' unfeature) ''is_featured'')"
    by (simp add: example_request_def unfeature_fields)
  have r: "updateProduct example_env [example_product]
             (example_request ''65a4f00000000000000000aa'' unfeature)
           = (Inr (200, example_product), [example_product])"
    using example_id_valid
    by (simp add: updateProduct_def example_request_def unfeature_fields example_product_def
          update_basic_fields_def update_flash_sale_def Let_def)
  have t: "is_featured example_product = JBool True"
    by (simp add: example_product_def)
  show ?thesis
    using is_featured_kept_when_falsy[OF f, of example_env "[example_product]"] f r t by simp
qed

subsection \<open>The flash-sale price\<close>




section \<open>Properties of the listing handlers\<close>

subsection \<open>Strings and the search filter\<close>

lemma starts_with_iff: "starts_with s n \<longleftrightarrow> (\<exists>suf. s = n @ suf)"
  by (induction s n rule: starts_with.induct) auto

lemma str_includes_iff: "str_includes hay needle \<longleftrightarrow> (\<exists>pre suf. hay = pre @ needle @ suf)"
proof (induction hay)
  case Nil
  then show ?case by auto
next
  case (Cons c cs)
  show ?case
  proof
    assume "str_includes (c # cs) needle"
    then consider "starts_with (c # cs) needle" | "str_includes cs needle" by auto
    then show "\<exists>pre suf. c # cs = pre @ needle @ suf"
    proof cases
      case 1
      then obtain suf where "c # cs = needle @ suf" by (auto simp: starts_with_iff)
      then have "c # cs = [] @ needle @ suf" by simp
      then show ?thesis by blast
    next
      case 2
      with Cons.IH obtain pre suf where "cs = pre @ needle @ suf" by auto
      then have "c # cs = (c # pre) @ needle @ suf" by simp
      then show ?thesis by blast
    qed
  next
    assume "\<exists>pre suf. c # cs = pre @ needle @ suf"
    then obtain pre suf where e: "c # cs = pre @ needle @ suf" by blast
    show "str_includes (c # cs) needle"
    proof (cases pre)
      case Nil
      with e have "starts_with (c # cs) needle" by (auto simp: starts_with_iff)
      then show ?thesis by simp
    next
      case (Cons d ds)
      with e have "cs = ds @ needle @ suf" by simp
      with Cons.IH have "str_includes cs needle" by blast
      then show ?thesis by simp
    qed
  qed
qed

lemma lower_hex_char: "lower_char (hex_char d) = hex_char d"
proof -
  define m where "m = d mod 16"
  have "m < 16" by (simp add: m_def)
  then have "m = 0 \<or> m = 1 \<or> m = 2 \<or> m = 3 \<or> m = 4 \<or> m = 5 \<or> m = 6 \<or> m = 7 \<or> m = 8
      \<or> m = 9 \<or> m = 10 \<or> m = 11 \<or> m = 12 \<or> m = 13 \<or> m = 14 \<or> m = 15"
    by arith
  then have "lower_char (''0123456789abcdef'' ! m) = ''0123456789abcdef'' ! m"
    by (elim disjE) (simp_all add: lower_char_def)
  then show ?thesis
    by (simp add: hex_char_def m_def)
qed

lemma toLowerCase_oid: "toLowerCase (oid_toString x) = oid_toString x"
  by (cases x) (simp add: toLowerCase_def lower_hex_char)

lemma ci_substring_includes:
  "str_includes (toLowerCase hay) (toLowerCase needle) = ci_substring needle hay"
  by (simp add: str_includes_iff ci_substring_def)

lemma ci_substring_oid:
  "str_includes (oid_toString x) (toLowerCase needle) = ci_substring needle (oid_toString x)"
  using ci_substring_includes[of "oid_toString x" needle] by (simp add: toLowerCase_oid)

lemma ci_substring_empty:
  "ci_substring needle [] = (toLowerCase needle = [])"
  by (auto simp: ci_substring_def toLowerCase_def)

lemma search_matches_iff:
  "search_matches s p \<longleftrightarrow> (\<exists>t \<in> set (searched_texts p). ci_substring s t)"
  unfolding search_matches_def searched_texts_def Let_def
  by (simp add: ci_substring_includes ci_substring_oid ci_substring_empty split: option.splits)

lemma build_payments_query_search:
  "build_payments_query e (q(''search'' := v)) = build_payments_query e q"
  by (simp add: build_payments_query_def str_param_def)

lemma store_page_length:
  assumes "store_page e skip (Fin (of_nat n)) xs = Some ys" "0 < n"
  shows "length ys \<le> n"
  using assms
  by (auto simp: store_page_def read_directive_def Let_def split: if_splits option.splits)

lemma parseInt_default: "parseInt (JNum (Fin 1)) = Fin 1" "parseInt (JNum (Fin 20)) = Fin 20"
  "parseInt (JNum (Fin 10)) = Fin 10"
  by (simp_all add: js_fin_def)

lemma skip_default: "skip_of (JNum (Fin 1)) (JNum (Fin 20)) = Fin 0"
  "skip_of (JNum (Fin 1)) (JNum (Fin 10)) = Fin 0"
  by (simp_all add: skip_of_def parseInt_default js_sub_def js_mul_def js_fin_def js_zero_def)

lemma store_page_first:
  "store_page e (Fin 0) (Fin (numeral k)) xs = Some (take (numeral k) xs)"
  by (simp add: store_page_def read_directive_def)







lemma parseInt_finite: "parseInt v = NaN \<or> js_finite (parseInt v)"
proof (cases v)
  case (JStr s)
  then show ?thesis
    by (auto simp: parseInt_str_def js_fin_def js_zero_def Let_def split: prod.splits if_splits)
next
  case (JNum a)
  then show ?thesis
    by (cases a) (auto simp: js_fin_def js_zero_def)
qed simp_all

lemma skip_of_limit_0:
  assumes "parseInt page \<noteq> NaN" and "parseInt limit = Fin 0 \<or> parseInt limit = NZero"
  shows "skip_of page limit = Fin 0 \<or> skip_of page limit = NZero"
proof -
  from assms(1) parseInt_finite[of page] have f: "js_finite (parseInt page)"
    by blast
  then have s: "js_finite (js_sub (parseInt page) (Fin 1))" "js_sub (parseInt page) (Fin 1) \<noteq> NaN"
    using assms(1) by (auto simp: js_sub_def js_fin_def js_zero_def)
  with assms(2) show ?thesis
    by (auto simp: skip_of_def js_mul_def js_fin_def js_zero_def)
qed

lemma store_page_all:
  assumes "skip = Fin 0 \<or> skip = NZero" and "limit = Fin 0 \<or> limit = NZero"
  shows "store_page e skip limit xs = Some xs"
  using assms by (auto simp: store_page_def read_directive_def)

subsection \<open>Paging arithmetic\<close>


lemma js_lt_int: "js_lt (Fin (of_int a)) (Fin (of_int b)) = (a < b)"
  by simp

subsection \<open>Evaluation on the example data\<close>

lemmas example_payments_defs =
  example_payments_def alice_payment_def bob_payment_def pending_payment_def

lemma parseInt_str_1: "parseInt_str ''1'' = Fin 1"
  by (simp add: parseInt_str_def is_ws_def is_digit_def digits_val_def js_fin_def)



lemma search_alice_limit_1_params:
  "search_alice_limit_1 ''page'' = None"
  "search_alice_limit_1 ''limit'' = Some ''1''"
  "search_alice_limit_1 ''search'' = Some ''ALICE''"
  "search_alice_limit_1 ''status'' = None"
  "search_alice_limit_1 ''startDate'' = None"
  "search_alice_limit_1 ''endDate'' = None"
  "search_alice_limit_1 ''sortBy'' = None"
  "search_alice_limit_1 ''sortOrder'' = None"
  by (simp_all add: search_alice_limit_1_def)

lemma example_payments_sorted:
  "sort_payments example_env ''createdAt'' (- 1) example_payments = rev example_payments"
  by (simp add: example_env_def example_payments_defs)

lemma lower_alice: "toLowerCase ''ALICE'' = ''alice''"
  by (simp add: toLowerCase_def lower_char_def)

lemma search_alice_evaluated:
  "getAllPayments example_env example_payments search_alice_limit_1 =
     Inr (200, \<lparr> payments_data = [],
                 payments_pagination =
                   \<lparr> currentPage = Fin 1, totalPages = Fin 3, hasNext = True, hasPrev = False,
                     totalPayments = 3 \<rparr> \<rparr>)"
proof -
  have q: "build_payments_query example_env search_alice_limit_1 =
             \<lparr> query_status = None, query_createdAt = None \<rparr>"
    by (simp add: build_payments_query_def str_param_def search_alice_limit_1_params)
  have f: "filter (matches_payment \<lparr> query_status = None, query_createdAt = None \<rparr>)
             example_payments = example_payments"
    by (simp add: matches_payment_def)
  have sk: "skip_of (JNum (Fin 1)) (JStr ''1'') = Fin 0"
    by (simp add: skip_of_def parseInt_str_1 js_sub_def js_mul_def js_fin_def js_zero_def)
  have pg: "store_page example_env (Fin 0) (Fin 1) (rev example_payments) = Some [pending_payment]"
    by (simp add: store_page_def read_directive_def example_payments_def)
  have nm: "\<not> search_matches ''ALICE'' (pending_payment)"
    by (simp add: search_matches_def example_payments_defs lower_alice toLowerCase_def lower_char_def)
  have len: "length example_payments = 3"
    by (simp add: example_payments_defs)
  have pages: "js_ceil (js_div (Fin 3) (Fin 1)) = Fin 3"
    by (simp add: js_div_def js_fin_def)
  show ?thesis
    by (simp add: getAllPayments_def Let_def num_param_def str_param_def
          search_alice_limit_1_params q payments_query_ok_def f sk parseInt_str_1
          example_payments_sorted pg nm len pages js_gt_def js_fin_def)
qed

lemma alice_found:
  "alice_payment \<in> set example_payments"
  "matches_payment (build_payments_query example_env search_alice_limit_1) (alice_payment)"
  "search_matches ''ALICE'' (alice_payment)"
proof -
  show "alice_payment \<in> set example_payments"
    by (simp add: example_payments_defs)
  show "matches_payment (build_payments_query example_env search_alice_limit_1)
          (alice_payment)"
    by (simp add: build_payments_query_def str_param_def search_alice_limit_1_params
          matches_payment_def)
  show "search_matches ''ALICE'' (alice_payment)"
    by (simp add: search_matches_def example_payments_defs lower_alice toLowerCase_def
          lower_char_def)
qed




lemma period_weekly_params: "period_weekly ''period'' = Some ''weekly''"
  by (simp add: period_weekly_def)

lemma endDate_params:
  "endDate_2024_01_15 ''page'' = None"
  "endDate_2024_01_15 ''limit'' = None"
  "endDate_2024_01_15 ''search'' = None"
  "endDate_2024_01_15 ''status'' = None"
  "endDate_2024_01_15 ''startDate'' = None"
  "endDate_2024_01_15 ''endDate'' = Some ''2024-01-15''"
  "endDate_2024_01_15 ''sortBy'' = None"
  "endDate_2024_01_15 ''sortOrder'' = None"
  by (simp_all add: endDate_2024_01_15_def)





lemma pad_digits_2:
  "pad_digits 2 n = [''0123456789'' ! (n div 10 mod 10), ''0123456789'' ! (n mod 10)]"
proof -
  have "pad_digits (Suc (Suc 0)) n =
          [''0123456789'' ! (n div 10 mod 10), ''0123456789'' ! (n mod 10)]"
    by simp
  moreover have "(2::nat) = Suc (Suc 0)" by simp
  ultimately show ?thesis by (simp only:)
qed

lemma pad_digits_4:
  "pad_digits 4 n = [''0123456789'' ! (n div 10 div 10 div 10 mod 10),
                     ''0123456789'' ! (n div 10 div 10 mod 10),
                     ''0123456789'' ! (n div 10 mod 10), ''0123456789'' ! (n mod 10)]"
proof -
  have "pad_digits (Suc (Suc (Suc (Suc 0)))) n =
          [''0123456789'' ! (n div 10 div 10 div 10 mod 10),
           ''0123456789'' ! (n div 10 div 10 mod 10),
           ''0123456789'' ! (n div 10 mod 10), ''0123456789'' ! (n mod 10)]"
    by simp
  moreover have "(4::nat) = Suc (Suc (Suc (Suc 0)))" by simp
  ultimately show ?thesis by (simp only:)
qed

lemma week_labels:
  "dateToString ''%Y-W%V'' 1735560000000 = ''2024-W01''"
  "dateToString ''%Y-W%V'' 1735732800000 = ''2025-W01''"
  by (simp_all add: date_specifier_def utc_year_def iso_week_def iso_week_year_def
        iso_thursday_def civil_from_days_def days_from_civil_def ms_per_day_def
        pad_digits_2 pad_digits_4 cong: let_weak_cong)

lemma same_iso_week:
  "iso_week_year 1735560000000 = 2025" "iso_week 1735560000000 = 1"
  "iso_week_year 1735732800000 = 2025" "iso_week 1735732800000 = 1"
  by (simp_all add: iso_week_def iso_week_year_def iso_thursday_def civil_from_days_def
        days_from_civil_def ms_per_day_def cong: let_weak_cong)

lemma parse_date: "parse_iso_date ''2024-01-15'' = Some 1705276800000"
  by (simp add: parse_iso_date_def is_digit_def digits_val_def days_in_month_def
        days_from_civil_def ms_per_day_def cong: let_weak_cong)

lemma set_hours:
  "setHours (- 5 * 60 * 60 * 1000) (Date 1705276800000) 23 59 59 999 = Date 1705294799999"
  "setHours 0 (Date 1705276800000) 23 59 59 999 = Date 1705363199999"
  by (simp_all add: ms_per_day_def)






lemma parseInt_str_0: "parseInt_str ''0'' = Fin 0"
  by (simp add: parseInt_str_def is_ws_def is_digit_def digits_val_def js_fin_def js_zero_def)

lemma search_alice_limit_0_params:
  "search_alice_limit_0 ''page'' = None"
  "search_alice_limit_0 ''limit'' = Some ''0''"
  "search_alice_limit_0 ''search'' = Some ''ALICE''"
  "search_alice_limit_0 ''status'' = None"
  "search_alice_limit_0 ''startDate'' = None"
  "search_alice_limit_0 ''endDate'' = None"
  "search_alice_limit_0 ''sortBy'' = None"
  "search_alice_limit_0 ''sortOrder'' = None"
  by (simp_all add: search_alice_limit_0_def)

lemma search_65A4F_params:
  "search_65A4F ''page'' = None"
  "search_65A4F ''limit'' = None"
  "search_65A4F ''search'' = Some ''65A4F''"
  "search_65A4F ''status'' = None"
  "search_65A4F ''startDate'' = None"
  "search_65A4F ''endDate'' = None"
  "search_65A4F ''sortBy'' = None"
  "search_65A4F ''sortOrder'' = None"
  by (simp_all add: search_65A4F_def)

lemma searched_texts_examples:
  "searched_texts alice_payment =
     [''Alice'', ''alice@example.com'', ''pi_A1'', ''65a4f0000000000000000011'']"
  "searched_texts bob_payment =
     [''Bob'', ''bob@example.com'', ''pi_B2'', ''65a4f0000000000000000012'']"
  "searched_texts pending_payment = [[], [], ''pi_C3'', []]"
  by (simp_all add: searched_texts_def alice_payment_def bob_payment_def pending_payment_def
        hex_char_def)

lemma lower_65A4F: "toLowerCase ''65A4F'' = ''65a4f''"
  by (simp add: toLowerCase_def lower_char_def)

lemma search_examples:
  "search_matches ''ALICE'' alice_payment"
  "\<not> search_matches ''ALICE'' bob_payment"
  "\<not> search_matches ''ALICE'' pending_payment"
  "search_matches ''65A4F'' alice_payment"
  "search_matches ''65A4F'' bob_payment"
  "\<not> search_matches ''65A4F'' pending_payment"
  by (simp_all add: search_matches_def alice_payment_def bob_payment_def pending_payment_def
        hex_char_def lower_alice lower_65A4F toLowerCase_def lower_char_def)

lemma search_alice_limit_0_evaluated:
  "getAllPayments example_env example_payments search_alice_limit_0 =
     Inr (200, \<lparr> payments_data = [alice_payment],
                 payments_pagination =
                   \<lparr> currentPage = Fin 1, totalPages = PInf, hasNext = True, hasPrev = False,
                     totalPayments = 3 \<rparr> \<rparr>)"
proof -
  have q: "build_payments_query example_env search_alice_limit_0 =
             \<lparr> query_status = None, query_createdAt = None \<rparr>"
    by (simp add: build_payments_query_def str_param_def search_alice_limit_0_params)
  have f: "filter (matches_payment \<lparr> query_status = None, query_createdAt = None \<rparr>)
             example_payments = example_payments"
    by (simp add: matches_payment_def)
  have sk: "skip_of (JNum (Fin 1)) (JStr ''0'') = Fin 0"
    by (simp add: skip_of_def parseInt_str_0 js_sub_def js_mul_def js_fin_def js_zero_def)
  have pg: "store_page example_env (Fin 0) (Fin 0) (rev example_payments)
              = Some [pending_payment, bob_payment, alice_payment]"
    by (simp add: store_page_def read_directive_def example_payments_def)
  have len: "length example_payments = 3"
    by (simp add: example_payments_def)
  have pages: "js_ceil (js_div (Fin 3) (Fin 0)) = PInf"
    by (simp add: js_div_def js_inf_def)
  show ?thesis
    by (simp add: getAllPayments_def Let_def num_param_def str_param_def
          search_alice_limit_0_params q payments_query_ok_def f sk parseInt_str_0
          example_payments_sorted pg search_examples len pages js_gt_def js_fin_def)
qed

lemma search_65A4F_evaluated:
  "getAllPayments example_env example_payments search_65A4F =
     Inr (200, \<lparr> payments_data = [bob_payment, alice_payment],
                 payments_pagination =
                   \<lparr> currentPage = Fin 1, totalPages = Fin 1, hasNext = False, hasPrev = False,
                     totalPayments = 3 \<rparr> \<rparr>)"
proof -
  have q: "build_payments_query example_env search_65A4F =
             \<lparr> query_status = None, query_createdAt = None \<rparr>"
    by (simp add: build_payments_query_def str_param_def search_65A4F_params)
  have f: "filter (matches_payment \<lparr> query_status = None, query_createdAt = None \<rparr>)
             example_payments = example_payments"
    by (simp add: matches_payment_def)
  have pg: "store_page example_env (Fin 0) (Fin 10) (rev example_payments)
              = Some [pending_payment, bob_payment, alice_payment]"
    by (simp add: store_page_def read_directive_def example_payments_def)
  have len: "length example_payments = 3"
    by (simp add: example_payments_def)
  have c: "\<lceil>(3::rat) / 10\<rceil> = 1"
    by (simp add: ceiling_eq_iff)
  have pages: "js_ceil (js_div (Fin 3) (Fin 10)) = Fin 1"
    by (simp add: js_div_def js_fin_def c)
  show ?thesis
    by (simp add: getAllPayments_def Let_def num_param_def str_param_def
          search_65A4F_params q payments_query_ok_def f skip_default parseInt_default
          example_payments_sorted pg search_examples len pages js_gt_def js_fin_def)
qed

subsection \<open>The pagination envelope\<close>



subsection \<open>Defaults of page and limit\<close>





subsection \<open>Search after paging\<close>

text \<open>
  C2, as the code has it. For a payments request with a non-empty search term that is
  answered: the store is asked for the page given by skip and limit of the sorted
  documents matching the filter of the request without its search term. That page holds
  at most \<open>limit\<close> documents when the limit is a positive integer; when the limit is 0 the
  store applies no limit and the page is every one of those documents (the skip is then
  \<open>(page - 1) * 0\<close>, for a page that \<open>parseInt\<close> reads). The data
  returned are those documents of that page in which the search term occurs, ignoring
  case, as a substring of the customer's name, the customer's e-mail, the intent
  identifier or the order identifier; \<open>totalPayments\<close> and \<open>totalPages\<close> count the documents
  matching the filter without the search term. So a searched page can hold fewer than
  \<open>limit\<close> rows although a matching document exists: there is such a request.
\<close>

theorem search_applied_after_paging:
  assumes "q ''search'' = Some s" and "s \<noteq> []"
    and "getAllPayments e coll q = Inr (st, r)"
  shows "\<exists>fetched.
      store_page e (skip_of (num_param q ''page'' 1) (num_param q ''limit'' 10))
        (parseInt (num_param q ''limit'' 10))
        (sort_payments e (str_param q ''sortBy'' ''createdAt'')
           (if str_param q ''sortOrder'' ''desc'' = ''desc'' then - 1 else 1)
           (filter (matches_payment (build_payments_query e (q(''search'' := None)))) coll))
        = Some fetched
      \<and> (\<forall>n. parseInt (num_param q ''limit'' 10) = Fin (of_nat n) \<and> 0 < n \<longrightarrow> length fetched \<le> n)
      \<and> ((parseInt (num_param q ''limit'' 10) = Fin 0 \<or> parseInt (num_param q ''limit'' 10) = NZero)
             \<and> parseInt (num_param q ''page'' 1) \<noteq> NaN
           \<longrightarrow> fetched =
                 sort_payments e (str_param q ''sortBy'' ''createdAt'')
                   (if str_param q ''sortOrder'' ''desc'' = ''desc'' then - 1 else 1)
                   (filter (matches_payment (build_payments_query e (q(''search'' := None)))) coll))
      \<and> payments_data r = filter (\<lambda>p. \<exists>t \<in> set (searched_texts p). ci_substring s t) fetched
      \<and> totalPayments (payments_pagination r) =
          length (filter (matches_payment (build_payments_query e (q(''search'' := None)))) coll)
      \<and> totalPages (payments_pagination r) =
          js_ceil (js_div
            (Fin (of_nat (length (filter (matches_payment
                                            (build_payments_query e (q(''search'' := None)))) coll))))
            (parseInt (num_param q ''limit'' 10)))
      \<and> (\<exists>e' coll' q' s' r' p.
            q' ''search'' = Some s' \<and> s' \<noteq> [] \<and> getAllPayments e' coll' q' = Inr (200, r')
            \<and> parseInt (num_param q' ''limit'' 10) = Fin 1 \<and> length (payments_data r') < 1
            \<and> p \<in> set coll' \<and> matches_payment (build_payments_query e' q') p
            \<and> (\<exists>t \<in> set (searched_texts p). ci_substring s' t))"
proof -
  let ?pq = "build_payments_query e q"
  let ?limit = "parseInt (num_param q ''limit'' 10)"
  let ?sorted = "sort_payments e (str_param q ''sortBy'' ''createdAt'')
           (if str_param q ''sortOrder'' ''desc'' = ''desc'' then - 1 else 1)
           (filter (matches_payment ?pq) coll)"
  let ?page = "store_page e (skip_of (num_param q ''page'' 1) (num_param q ''limit'' 10)) ?limit ?sorted"
  have pq: "build_payments_query e (q(''search'' := None)) = ?pq"
    by (rule build_payments_query_search)
  have sp: "str_param q ''search'' [] = s"
    using assms(1) by (simp add: str_param_def)
  from assms(3) obtain fetched where f: "?page = Some fetched"
    by (cases ?page) (auto simp: getAllPayments_def Let_def split: if_splits)
  from assms(3) f sp assms(2) have d: "payments_data r = filter (search_matches s) fetched"
    and t: "totalPayments (payments_pagination r) = length (filter (matches_payment ?pq) coll)"
    and tp: "totalPages (payments_pagination r) =
          js_ceil (js_div (Fin (of_nat (length (filter (matches_payment ?pq) coll)))) ?limit)"
    by (auto simp: getAllPayments_def Let_def split: if_splits)
  have d': "payments_data r = filter (\<lambda>p. \<exists>t \<in> set (searched_texts p). ci_substring s t) fetched"
    unfolding d by (rule filter_cong) (simp_all add: search_matches_iff)
  have len: "\<forall>n. ?limit = Fin (of_nat n) \<and> 0 < n \<longrightarrow> length fetched \<le> n"
    using f store_page_length by metis
  have all: "(?limit = Fin 0 \<or> ?limit = NZero) \<and> parseInt (num_param q ''page'' 1) \<noteq> NaN
               \<longrightarrow> fetched = ?sorted"
  proof
    assume z: "(?limit = Fin 0 \<or> ?limit = NZero) \<and> parseInt (num_param q ''page'' 1) \<noteq> NaN"
    then have "?page = Some ?sorted"
      by (intro store_page_all skip_of_limit_0) simp_all
    with f show "fetched = ?sorted" by simp
  qed
  have ex: "\<exists>e' coll' q' s' r' p.
            q' ''search'' = Some s' \<and> s' \<noteq> [] \<and> getAllPayments e' coll' q' = Inr (200, r')
            \<and> parseInt (num_param q' ''limit'' 10) = Fin 1 \<and> length (payments_data r') < 1
            \<and> p \<in> set coll' \<and> matches_payment (build_payments_query e' q') p
            \<and> (\<exists>t \<in> set (searched_texts p). ci_substring s' t)"
    apply (rule exI[of _ example_env], rule exI[of _ example_payments])
    apply (rule exI[of _ search_alice_limit_1], rule exI[of _ "''ALICE''"])
    apply (intro exI[of _ "alice_payment"] exI conjI)
           apply (rule search_alice_limit_1_params(3))
          apply simp
         apply (rule search_alice_evaluated)
        apply (simp add: num_param_def search_alice_limit_1_params parseInt_str_1)
       apply simp
      apply (rule alice_found(1))
     apply (rule alice_found(2))
    using alice_found(3) apply (simp add: search_matches_iff)
    done
  show ?thesis
    unfolding pq using f len all d' t tp ex by blast
qed

theorem search_applied_after_paging_witness:
  "search_alice_limit_1 ''search'' = Some ''ALICE'' \<and> ''ALICE'' \<noteq> [] \<and>
   getAllPayments example_env example_payments search_alice_limit_1 =
     Inr (200, \<lparr> payments_data = [],
                 payments_pagination =
                   \<lparr> currentPage = Fin 1, totalPages = Fin 3, hasNext = True, hasPrev = False,
                     totalPayments = 3 \<rparr> \<rparr>) \<and>
   parseInt (num_param search_alice_limit_1 ''limit'' 10) = Fin (of_nat 1) \<and>
   (\<exists>fetched. length fetched \<le> 1 \<and>
      [] = filter (\<lambda>p. \<exists>t \<in> set (searched_texts p). ci_substring ''ALICE'' t) fetched) \<and>
   3 = length (filter (matches_payment
                         (build_payments_query example_env (search_alice_limit_1(''search'' := None))))
                 example_payments) \<and>
   alice_payment \<in> set example_payments \<and>
   searched_texts alice_payment =
     [''Alice'', ''alice@example.com'', ''pi_A1'', ''65a4f0000000000000000011''] \<and>
   ci_substring ''ALICE'' ''Alice'' \<and>
   search_65A4F ''search'' = Some ''65A4F'' \<and> ''65A4F'' \<noteq> [] \<and>
   getAllPayments example_env example_payments search_65A4F =
     Inr (200, \<lparr> payments_data = [bob_payment, alice_payment],
                 payments_pagination =
                   \<lparr> currentPage = Fin 1, totalPages = Fin 1, hasNext = False, hasPrev = False,
                     totalPayments = 3 \<rparr> \<rparr>) \<and>
   parseInt (num_param search_65A4F ''limit'' 10) = Fin (of_nat 10) \<and>
   (\<exists>fetched. length fetched \<le> 10 \<and>
      [bob_payment, alice_payment] =
        filter (\<lambda>p. \<exists>t \<in> set (searched_texts p). ci_substring ''65A4F'' t) fetched) \<and>
   ci_substring ''65A4F'' ''65a4f0000000000000000011'' \<and>
   \<not> ci_substring ''65A4F'' ''Alice'' \<and> \<not> ci_substring ''65A4F'' ''alice@example.com'' \<and>
   \<not> ci_substring ''65A4F'' ''pi_A1'' \<and>
   search_alice_limit_0 ''search'' = Some ''ALICE'' \<and>
   getAllPayments example_env example_payments search_alice_limit_0 =
     Inr (200, \<lparr> payments_data = [alice_payment],
                 payments_pagination =
                   \<lparr> currentPage = Fin 1, totalPages = PInf, hasNext = True, hasPrev = False,
                     totalPayments = 3 \<rparr> \<rparr>) \<and>
   parseInt (num_param search_alice_limit_0 ''limit'' 10) = Fin 0 \<and>
   parseInt (num_param search_alice_limit_0 ''page'' 1) \<noteq> NaN \<and>
   (\<exists>fetched. fetched = [pending_payment, bob_payment, alice_payment] \<and>
      [alice_payment] =
        filter (\<lambda>p. \<exists>t \<in> set (searched_texts p). ci_substring ''ALICE'' t) fetched)"
proof -
  have ne: "''ALICE'' \<noteq> []" "''65A4F'' \<noteq> []" by simp_all
  have l: "parseInt (num_param search_alice_limit_1 ''limit'' 10) = Fin (of_nat 1)"
    by (simp add: num_param_def search_alice_limit_1_params parseInt_str_1)
  have l': "parseInt (num_param search_65A4F ''limit'' 10) = Fin (of_nat 10)"
    by (simp add: num_param_def search_65A4F_params js_fin_def)
  from search_applied_after_paging
         [OF search_alice_limit_1_params(3) ne(1) search_alice_evaluated]
  obtain fetched where
    n: "\<forall>n. parseInt (num_param search_alice_limit_1 ''limit'' 10) = Fin (of_nat n) \<and> 0 < n
          \<longrightarrow> length fetched \<le> n"
    and d: "payments_data
              \<lparr> payments_data = [],
                payments_pagination =
                  \<lparr> currentPage = Fin 1, totalPages = Fin 3, hasNext = True, hasPrev = False,
                    totalPayments = 3 \<rparr> \<rparr>
            = filter (\<lambda>p. \<exists>t \<in> set (searched_texts p). ci_substring ''ALICE'' t) fetched"
    and t: "totalPayments (payments_pagination
              \<lparr> payments_data = [],
                payments_pagination =
                  \<lparr> currentPage = Fin 1, totalPages = Fin 3, hasNext = True, hasPrev = False,
                    totalPayments = 3 \<rparr> \<rparr>)
            = length (filter (matches_payment
                         (build_payments_query example_env (search_alice_limit_1(''search'' := None))))
                 example_payments)"
    by blast
  from n l have "length fetched \<le> 1" by simp
  with d have a: "\<exists>fetched. length fetched \<le> 1 \<and>
      [] = filter (\<lambda>p. \<exists>t \<in> set (searched_texts p). ci_substring ''ALICE'' t) fetched"
    by auto
  from search_applied_after_paging
         [OF search_65A4F_params(3) ne(2) search_65A4F_evaluated]
  obtain fetched' where
    n': "\<forall>n. parseInt (num_param search_65A4F ''limit'' 10) = Fin (of_nat n) \<and> 0 < n
          \<longrightarrow> length fetched' \<le> n"
    and d': "payments_data
              \<lparr> payments_data = [bob_payment, alice_payment],
                payments_pagination =
                  \<lparr> currentPage = Fin 1, totalPages = Fin 1, hasNext = False, hasPrev = False,
                    totalPayments = 3 \<rparr> \<rparr>
            = filter (\<lambda>p. \<exists>t \<in> set (searched_texts p). ci_substring ''65A4F'' t) fetched'"
    by blast
  from n' l' have "length fetched' \<le> 10" by simp
  with d' have b: "\<exists>fetched. length fetched \<le> 10 \<and>
      [bob_payment, alice_payment] =
        filter (\<lambda>p. \<exists>t \<in> set (searched_texts p). ci_substring ''65A4F'' t) fetched"
    by auto
  have l0: "parseInt (num_param search_alice_limit_0 ''limit'' 10) = Fin 0"
    "parseInt (num_param search_alice_limit_0 ''page'' 1) \<noteq> NaN"
    by (simp_all add: num_param_def search_alice_limit_0_params parseInt_str_0 js_fin_def)
  have q0: "build_payments_query example_env (search_alice_limit_0(''search'' := None)) =
             \<lparr> query_status = None, query_createdAt = None \<rparr>"
    by (simp add: build_payments_query_def str_param_def search_alice_limit_0_params)
  have s0: "sort_payments example_env (str_param search_alice_limit_0 ''sortBy'' ''createdAt'')
              (if str_param search_alice_limit_0 ''sortOrder'' ''desc'' = ''desc'' then - 1 else 1)
              (filter (matches_payment \<lparr> query_status = None, query_createdAt = None \<rparr>)
                 example_payments)
            = [pending_payment, bob_payment, alice_payment]"
    by (simp add: str_param_def search_alice_limit_0_params matches_payment_def
          example_payments_sorted) (simp add: example_payments_def)
  from search_applied_after_paging
         [OF search_alice_limit_0_params(3) ne(1) search_alice_limit_0_evaluated]
  obtain fetched0 where
    z: "(parseInt (num_param search_alice_limit_0 ''limit'' 10) = Fin 0
          \<or> parseInt (num_param search_alice_limit_0 ''limit'' 10) = NZero)
         \<and> parseInt (num_param search_alice_limit_0 ''page'' 1) \<noteq> NaN
        \<longrightarrow> fetched0 =
              sort_payments example_env (str_param search_alice_limit_0 ''sortBy'' ''createdAt'')
                (if str_param search_alice_limit_0 ''sortOrder'' ''desc'' = ''desc'' then - 1 else 1)
                (filter (matches_payment
                           (build_payments_query example_env
                              (search_alice_limit_0(''search'' := None)))) example_payments)"
    and d0: "payments_data
              \<lparr> payments_data = [alice_payment],
                payments_pagination =
                  \<lparr> currentPage = Fin 1, totalPages = PInf, hasNext = True, hasPrev = False,
                    totalPayments = 3 \<rparr> \<rparr>
            = filter (\<lambda>p. \<exists>t \<in> set (searched_texts p). ci_substring ''ALICE'' t) fetched0"
    by blast
  from z l0 have "fetched0 = [pending_payment, bob_payment, alice_payment]"
    unfolding q0 s0 by simp
  with d0 have c: "\<exists>fetched. fetched = [pending_payment, bob_payment, alice_payment] \<and>
      [alice_payment] =
        filter (\<lambda>p. \<exists>t \<in> set (searched_texts p). ci_substring ''ALICE'' t) fetched"
    by simp
  have ci: "ci_substring ''ALICE'' ''Alice''"
    "ci_substring ''65A4F'' ''65a4f0000000000000000011''"
    "\<not> ci_substring ''65A4F'' ''Alice''" "\<not> ci_substring ''65A4F'' ''alice@example.com''"
    "\<not> ci_substring ''65A4F'' ''pi_A1''"
    by (simp_all add: ci_substring_includes[symmetric] toLowerCase_def lower_char_def)
  from a b c t l l' l0 ne ci search_alice_limit_1_params(3) search_65A4F_params(3)
    search_alice_limit_0_params(3) search_alice_evaluated search_65A4F_evaluated
    search_alice_limit_0_evaluated alice_found(1) searched_texts_examples(1)
  show ?thesis
    by simp
qed

text \<open>
  The claim as worded fails on a limit of 0: the request \<open>search=ALICE&limit=0\<close> on the three
  example payments makes the store return all three, and the answer holds one row.
\<close>

theorem search_limit_0_fetches_all:
  "search_alice_limit_0 ''search'' = Some ''ALICE'' \<and>
   parseInt (num_param search_alice_limit_0 ''limit'' 10) = Fin 0 \<and>
   store_page example_env
     (skip_of (num_param search_alice_limit_0 ''page'' 1) (num_param search_alice_limit_0 ''limit'' 10))
     (parseInt (num_param search_alice_limit_0 ''limit'' 10))
     (sort_payments example_env ''createdAt'' (- 1) example_payments)
     = Some [pending_payment, bob_payment, alice_payment] \<and>
   getAllPayments example_env example_payments search_alice_limit_0 =
     Inr (200, \<lparr> payments_data = [alice_payment],
                 payments_pagination =
                   \<lparr> currentPage = Fin 1, totalPages = PInf, hasNext = True, hasPrev = False,
                     totalPayments = 3 \<rparr> \<rparr>)"
proof -
  have sk: "skip_of (JNum (Fin 1)) (JStr ''0'') = Fin 0"
    by (simp add: skip_of_def parseInt_str_0 js_sub_def js_mul_def js_fin_def js_zero_def)
  have pg: "store_page example_env (Fin 0) (Fin 0) (rev example_payments)
              = Some [pending_payment, bob_payment, alice_payment]"
    by (simp add: store_page_def read_directive_def example_payments_def)
  show ?thesis
    by (simp add: search_alice_limit_0_evaluated search_alice_limit_0_params num_param_def
          parseInt_str_0 sk example_payments_sorted pg)
qed

subsection \<open>The end of the date range\<close>

text \<open>
  C9 at a server five hours west of UTC. The request asks for the payments up to
  \<open>endDate = 2024-01-15\<close>. The date string is read as midnight UTC, which is 19:00 of
  14 January in the server's local time; \<open>setHours(23, 59, 59, 999)\<close> then gives the end of
  the local 14 January, that is 2024-01-15T04:59:59.999Z. Neither the payment created at
  23:59:59 UTC on 15 January nor the one created at 23:59:59 local time on 15 January is
  returned.
\<close>

theorem endDate_west_of_utc_excludes_the_day:
  "build_payments_query env_utc_minus_5 endDate_2024_01_15 =
     \<lparr> query_status = None, query_createdAt = Some (None, Some (Date 1705294799999)) \<rparr> \<and>
   getAllPayments env_utc_minus_5 late_payments endDate_2024_01_15 =
     Inr (200, \<lparr> payments_data = [],
                 payments_pagination =
                   \<lparr> currentPage = Fin 1, totalPages = Fin 0, hasNext = False, hasPrev = False,
                     totalPayments = 0 \<rparr> \<rparr>)"
proof -
  have tz: "tz env_utc_minus_5 = - 18000000"
    by (simp add: env_utc_minus_5_def)
  have d: "new_Date (date_fallback env_utc_minus_5) ''2024-01-15'' = Date 1705276800000"
    by (simp add: new_Date_def parse_date)
  have h: "setHours (- 18000000) (Date 1705276800000) 23 59 59 999 = Date 1705294799999"
    by (simp add: ms_per_day_def)
  have q: "build_payments_query env_utc_minus_5 endDate_2024_01_15 =
     \<lparr> query_status = None, query_createdAt = Some (None, Some (Date 1705294799999)) \<rparr>"
    by (simp add: build_payments_query_def str_param_def endDate_params tz d ms_per_day_def)
  have f: "filter (matches_payment
             \<lparr> query_status = None, query_createdAt = Some (None, Some (Date 1705294799999)) \<rparr>)
             late_payments = []"
    by (simp add: matches_payment_def late_payments_def)
  have s: "sort_payments env_utc_minus_5 f' d' [] = []" for f' d'
    by (simp add: env_utc_minus_5_def example_env_def)
  have pages: "js_ceil (js_div (Fin 0) (Fin 10)) = Fin 0"
    by (simp add: js_div_def js_fin_def js_zero_def)
  have r: "getAllPayments env_utc_minus_5 late_payments endDate_2024_01_15 =
     Inr (200, \<lparr> payments_data = [],
                 payments_pagination =
                   \<lparr> currentPage = Fin 1, totalPages = Fin 0, hasNext = False, hasPrev = False,
                     totalPayments = 0 \<rparr> \<rparr>)"
    by (simp add: getAllPayments_def Let_def num_param_def str_param_def endDate_params q
          payments_query_ok_def f s parseInt_default skip_default store_page_first pages
          js_gt_def js_fin_def)
  from q r show ?thesis by (rule conjI)
qed

text \<open>
  On a server on UTC the bound for a date-only \<open>endDate\<close> is 23:59:59.999 of that day.
\<close>

lemma setHours_end_of_day_utc:
  "setHours 0 (Date (d * ms_per_day)) 23 59 59 999 = Date (d * ms_per_day + 86399999)"
  by simp

text \<open>The upper bound of that request, read off the evaluation above.\<close>

theorem endDate_west_of_utc_excludes_the_day_witness:
  "query_createdAt (build_payments_query env_utc_minus_5 endDate_2024_01_15) =
     Some (None, Some (Date 1705294799999)) \<and>
   payments_data
     (snd (projr (getAllPayments env_utc_minus_5 late_payments endDate_2024_01_15))) = []"
  using endDate_west_of_utc_excludes_the_day by simp

section \<open>Properties of the analytics\<close>

lemma find_group_insert:
  "find (\<lambda>g. fst g = k) (group_insert k' a gs) =
     (if k = k'
      then Some (case find (\<lambda>g. fst g = k) gs of
                   None \<Rightarrow> (k, 1, a)
                 | Some g \<Rightarrow> (k, Suc (fst (snd g)), snd (snd g) + a))
      else find (\<lambda>g. fst g = k) gs)"
  by (induction gs) (auto split: option.splits)

lemma find_fst_eq: "find (\<lambda>g. fst g = k) gs = Some g \<Longrightarrow> fst g = k"
  by (induction gs) (auto split: if_splits)

lemma find_foldl_group:
  "find (\<lambda>g. fst g = k) (foldl (\<lambda>gs p. group_insert (key p) (totalAmount p) gs) gs0 ps) =
     (case find (\<lambda>g. fst g = k) gs0 of
        None \<Rightarrow> (if \<exists>p \<in> set ps. key p = k
                  then Some (k, length (filter (\<lambda>p. key p = k) ps),
                             sum_list (map totalAmount (filter (\<lambda>p. key p = k) ps)))
                  else None)
      | Some g \<Rightarrow> Some (k, fst (snd g) + length (filter (\<lambda>p. key p = k) ps),
                        snd (snd g) + sum_list (map totalAmount (filter (\<lambda>p. key p = k) ps))))"
proof (induction ps arbitrary: gs0)
  case Nil
  then show ?case by (auto split: option.splits dest: find_fst_eq)
next
  case (Cons p ps)
  show ?case
    by (simp add: Cons.IH find_group_insert add.assoc split: option.splits)
qed

lemma find_aggregate_group:
  "find (\<lambda>g. fst g = k) (aggregate_group key ps) =
     (if \<exists>p \<in> set ps. key p = k
      then Some (k, length (filter (\<lambda>p. key p = k) ps),
                 sum_list (map totalAmount (filter (\<lambda>p. key p = k) ps)))
      else None)"
  by (simp add: aggregate_group_def find_foldl_group)

lemma empty_filter_conv: "(\<forall>p \<in> set ps. key p \<noteq> k) \<Longrightarrow> filter (\<lambda>p. key p = k) ps = []"
  by (induction ps) auto

lemma status_count_aggregate:
  "status_count (aggregate_group status coll) st = status_count_spec st coll"
  by (auto simp: status_count_def status_count_spec_def find_aggregate_group empty_filter_conv)

lemma status_amount_aggregate:
  "status_amount (aggregate_group status coll) st = status_amount_spec st coll"
  by (auto simp: status_amount_def status_amount_spec_def find_aggregate_group empty_filter_conv)

lemma foldl_group_unit:
  "foldl (\<lambda>gs p. group_insert () (totalAmount p) gs) [((), c, s)] ps =
     [((), c + length ps, s + sum_list (map totalAmount ps))]"
  by (induction ps arbitrary: c s) (simp_all add: add.assoc)

lemma aggregate_group_unit:
  "(case aggregate_group (\<lambda>p. ()) ps of [] \<Rightarrow> 0 | g # gs \<Rightarrow> snd (snd g))
     = sum_list (map totalAmount ps)"
  by (cases ps) (simp_all add: aggregate_group_def foldl_group_unit)

text \<open>
  C5. For every collection of payments and every request, the analytics are answered
  with 200; \<open>totalRevenue\<close> is the sum of \<open>totalAmount\<close> over all payments of status
  \<open>paid\<close>, whatever their date; for each of \<open>pending\<close>, \<open>paid\<close>, \<open>failed\<close> and \<open>refunded\<close> the
  result holds the number of payments of that status and the sum of their amounts, and
  both are 0 when no payment has the status.
\<close>

theorem analytics_totals:
  "\<exists>a. getPaymentAnalytics e coll q = Inr (200, a) \<and>
     totalRevenue a = status_amount_spec ''paid'' coll \<and>
     pendingPayments a = status_count_spec ''pending'' coll \<and>
     pendingAmount a = status_amount_spec ''pending'' coll \<and>
     completedPayments a = status_count_spec ''paid'' coll \<and>
     completedAmount a = status_amount_spec ''paid'' coll \<and>
     failedPayments a = status_count_spec ''failed'' coll \<and>
     failedAmount a = status_amount_spec ''failed'' coll \<and>
     refundedPayments a = status_count_spec ''refunded'' coll \<and>
     refundedAmount a = status_amount_spec ''refunded'' coll \<and>
     (\<forall>st. (\<forall>p \<in> set coll. status p \<noteq> st) \<longrightarrow>
        status_count_spec st coll = 0 \<and> status_amount_spec st coll = 0)"
  by (simp add: getPaymentAnalytics_def Let_def status_count_aggregate status_amount_aggregate
        aggregate_group_unit)
     (simp add: status_amount_spec_def status_count_spec_def empty_filter_conv)

theorem analytics_totals_witness:
  "filter (\<lambda>p. status p = ''failed'') example_payments = [] \<and>
   filter (\<lambda>p. status p = ''refunded'') example_payments = [] \<and>
   (\<exists>a. getPaymentAnalytics example_env example_payments no_params = Inr (200, a) \<and>
        totalRevenue a = 30 \<and>
        pendingPayments a = 1 \<and> pendingAmount a = 5 \<and>
        completedPayments a = 2 \<and> completedAmount a = 30 \<and>
        failedPayments a = 0 \<and> failedAmount a = 0 \<and>
        refundedPayments a = 0 \<and> refundedAmount a = 0)"
proof -
  have v: "status_amount_spec ''paid'' example_payments = 30"
    "status_count_spec ''paid'' example_payments = 2"
    "status_amount_spec ''pending'' example_payments = 5"
    "status_count_spec ''pending'' example_payments = 1"
    "status_amount_spec ''failed'' example_payments = 0"
    "status_count_spec ''failed'' example_payments = 0"
    "status_amount_spec ''refunded'' example_payments = 0"
    "status_count_spec ''refunded'' example_payments = 0"
    by (simp_all add: status_amount_spec_def status_count_spec_def example_payments_defs)
  have n: "filter (\<lambda>p. status p = ''failed'') example_payments = []"
    "filter (\<lambda>p. status p = ''refunded'') example_payments = []"
    by (simp_all add: example_payments_defs)
  from analytics_totals[of example_env example_payments no_params] n show ?thesis
    unfolding v by blast
qed

text \<open>
  C6 on the example payments with \<open>period = weekly\<close>. Both paid payments fall in the
  window of the last 12 * 7 days, and both lie in the ISO week 2025-W01 (Monday
  2024-12-30 to Sunday 2025-01-05). The format \<open>%Y-W%V\<close> joins the calendar year to the
  ISO week number, so the payment of 30 December is put in a bucket \<open>2024-W01\<close> and the
  payment of 1 January in another bucket \<open>2025-W01\<close>: one ISO week is split in two.
\<close>

theorem weekly_trend_splits_iso_week:
  "iso_week_year (createdAt (alice_payment)) = 2025 \<and>
   iso_week (createdAt (alice_payment)) = 1 \<and>
   iso_week_year (createdAt (bob_payment)) = 2025 \<and>
   iso_week (createdAt (bob_payment)) = 1 \<and>
   getPaymentAnalytics example_env example_payments period_weekly =
     Inr (200,
       \<lparr> totalRevenue = 30,
         pendingPayments = 1, pendingAmount = 5,
         completedPayments = 2, completedAmount = 30,
         failedPayments = 0, failedAmount = 0,
         refundedPayments = 0, refundedAmount = 0,
         revenueTrend =
           [\<lparr> period = ''2024-W01'', revenue = 10, count = 1 \<rparr>,
            \<lparr> period = ''2025-W01'', revenue = 20, count = 1 \<rparr>] \<rparr>)"
proof -
  have c: "createdAt (alice_payment) = 1735560000000"
    "createdAt (bob_payment) = 1735732800000"
    by (simp_all add: example_payments_defs)
  have w: "dateRange example_env ''weekly'' = 1728518400000"
    by (simp add: dateRange_def example_env_def)
  have f: "groupByFormat ''weekly'' = ''%Y-W%V''"
    by (simp add: groupByFormat_def)
  have v: "status_amount_spec ''paid'' example_payments = 30"
    "status_count_spec ''paid'' example_payments = 2"
    "status_amount_spec ''pending'' example_payments = 5"
    "status_count_spec ''pending'' example_payments = 1"
    "status_amount_spec ''failed'' example_payments = 0"
    "status_count_spec ''failed'' example_payments = 0"
    "status_amount_spec ''refunded'' example_payments = 0"
    "status_count_spec ''refunded'' example_payments = 0"
    by (simp_all add: status_amount_spec_def status_count_spec_def example_payments_defs)
  have total: "(case aggregate_group (\<lambda>p. ()) (filter (\<lambda>p. status p = ''paid'') example_payments)
                of [] \<Rightarrow> 0 | g # gs \<Rightarrow> snd (snd g)) = 30"
    unfolding aggregate_group_unit by (simp add: example_payments_defs)
  have paid: "filter (\<lambda>p. status p = ''paid'' \<and> 1728518400000 \<le> createdAt p) example_payments
                = [alice_payment, bob_payment]"
    by (simp add: example_payments_defs)
  have k: "dateToString ''%Y-W%V'' (createdAt (alice_payment)) = ''2024-W01''"
    "dateToString ''%Y-W%V'' (createdAt (bob_payment)) = ''2025-W01''"
    by (simp_all only: c week_labels)
  have a: "totalAmount (alice_payment) = 10" "totalAmount (bob_payment) = 20"
    by (simp_all add: example_payments_defs)
  have g: "aggregate_group (\<lambda>p. dateToString ''%Y-W%V'' (createdAt p))
             [alice_payment, bob_payment]
           = [(''2024-W01'', 1, 10), (''2025-W01'', 1, 20)]"
    by (simp add: aggregate_group_def k a del: dateToString.simps)
  have s: "sort_key fst [(''2024-W01'', 1::nat, 10::rat), (''2025-W01'', 1, 20)]
           = [(''2024-W01'', 1, 10), (''2025-W01'', 1, 20)]"
    by simp
  have r: "getPaymentAnalytics example_env example_payments period_weekly =
     Inr (200,
       \<lparr> totalRevenue = 30,
         pendingPayments = 1, pendingAmount = 5,
         completedPayments = 2, completedAmount = 30,
         failedPayments = 0, failedAmount = 0,
         refundedPayments = 0, refundedAmount = 0,
         revenueTrend =
           [\<lparr> period = ''2024-W01'', revenue = 10, count = 1 \<rparr>,
            \<lparr> period = ''2025-W01'', revenue = 20, count = 1 \<rparr>] \<rparr>)"
    unfolding getPaymentAnalytics_def Let_def
    by (simp add: str_param_def period_weekly_params w f total paid g s
          status_count_aggregate status_amount_aggregate v del: dateToString.simps)
  from c same_iso_week r show ?thesis by simp
qed

text \<open>The labels of the two buckets of that answer, read off the evaluation above.\<close>

theorem weekly_trend_splits_iso_week_witness:
  "map period
     (revenueTrend (snd (projr (getPaymentAnalytics example_env example_payments period_weekly))))
   = [''2024-W01'', ''2025-W01'']"
  using weekly_trend_splits_iso_week by simp

end
